theory Spec2Isabelle
  imports Main
begin

unbundle bit_operations_syntax

section \<open>Python library functions used by the scrubber\<close>

text \<open>
  The scrubber is Python 2 code.  Its strings are modelled as \<open>string\<close>, one \<open>char\<close>
  per character of the Python string.  The functions of this section are the parts of
  the Python standard library (\<open>str\<close> methods and \<open>posixpath\<close>) that the modelled code calls.
\<close>

datatype py_error =
    IOError string
  | OSError string
  | IndexError
  | AttributeError
  | NotImplementedError
  | BaseError string

text \<open>\<open>s.startswith(p)\<close>\<close>

definition startswith :: "string \<Rightarrow> string \<Rightarrow> bool" where
  "startswith s p = (take (length p) s = p)"

text \<open>\<open>s.endswith(p)\<close>\<close>

definition endswith :: "string \<Rightarrow> string \<Rightarrow> bool" where
  "endswith s p = (length p \<le> length s \<and> drop (length s - length p) s = p)"

text \<open>
  \<open>s.replace(old, new)\<close>: every occurrence of \<open>old\<close>, scanning from the left, occurrences
  not overlapping.  With an empty \<open>old\<close> Python puts \<open>new\<close> before every character and
  at the end.
\<close>

fun replace_scan :: "string \<Rightarrow> string \<Rightarrow> string \<Rightarrow> string" where
  "replace_scan old new [] = []"
| "replace_scan old new (c # cs) =
     (if old \<noteq> [] \<and> startswith (c # cs) old
      then new @ replace_scan old new (drop (length old) (c # cs))
      else c # replace_scan old new cs)"

definition py_replace :: "string \<Rightarrow> string \<Rightarrow> string \<Rightarrow> string" where
  "py_replace s old new =
     (if old = [] then new @ concat (map (\<lambda>c. c # new) s) else replace_scan old new s)"

text \<open>\<open>s.replace(old, new, 1)\<close>: the first occurrence only.\<close>

fun replace_first :: "string \<Rightarrow> string \<Rightarrow> string \<Rightarrow> string" where
  "replace_first old new [] = []"
| "replace_first old new (c # cs) =
     (if startswith (c # cs) old then new @ drop (length old) (c # cs)
      else c # replace_first old new cs)"

definition py_replace1 :: "string \<Rightarrow> string \<Rightarrow> string \<Rightarrow> string" where
  "py_replace1 s old new = (if old = [] then new @ s else replace_first old new s)"

text \<open>\<open>s.rfind(c)\<close> for a single character: the last index of \<open>c\<close>, or \<open>-1\<close>.\<close>

definition rfind :: "string \<Rightarrow> char \<Rightarrow> int" where
  "rfind s c =
     (if c \<in> set s then int (length s) - 1 - int (length (takeWhile (\<lambda>x. x \<noteq> c) (rev s)))
      else - 1)"

text \<open>\<open>posixpath.basename(p)\<close>: \<open>i = p.rfind('/') + 1; return p[i:]\<close>\<close>

definition basename :: "string \<Rightarrow> string" where
  "basename p = drop (nat (rfind p CHR ''/'' + 1)) p"

text \<open>
  \<open>posixpath.dirname(p)\<close>: \<open>head = p[:i]\<close> for the same \<open>i\<close>; a head that is not all
  slashes loses its trailing slashes.
\<close>

definition rstrip_slash :: "string \<Rightarrow> string" where
  "rstrip_slash s = rev (dropWhile (\<lambda>x. x = CHR ''/'') (rev s))"

definition dirname :: "string \<Rightarrow> string" where
  "dirname p =
     (let head = take (nat (rfind p CHR ''/'' + 1)) p
      in if head \<noteq> [] \<and> head \<noteq> replicate (length head) CHR ''/''
         then rstrip_slash head else head)"

text \<open>
  \<open>posixpath.splitext(p)\<close>: the extension starts at the last dot of the last path
  component, unless that component has only dots before it.
\<close>

definition splitext :: "string \<Rightarrow> string \<times> string" where
  "splitext p =
     (let sepIndex = rfind p CHR ''/'';
          dotIndex = rfind p CHR ''.''
      in if dotIndex > sepIndex \<and>
            list_ex (\<lambda>x. x \<noteq> CHR ''.'')
              (take (nat (dotIndex - (sepIndex + 1))) (drop (nat (sepIndex + 1)) p))
         then (take (nat dotIndex) p, drop (nat dotIndex) p)
         else (p, []))"

text \<open>\<open>posixpath.join(a, b)\<close> and its three-argument form.\<close>

definition path_join :: "string \<Rightarrow> string \<Rightarrow> string" where
  "path_join a b =
     (if startswith b ''/'' then b
      else if a = [] \<or> endswith a ''/'' then a @ b
      else a @ ''/'' @ b)"

definition path_join3 :: "string \<Rightarrow> string \<Rightarrow> string \<Rightarrow> string" where
  "path_join3 a b c = path_join (path_join a b) c"

section \<open>The file system the scrubber reads\<close>

text \<open>
  A file on disk has its bytes, the outcome of decoding them as UTF-8 (\<open>df_utf8\<close>), and the
  \<open>st_mode\<close> that \<open>os.stat\<close> reports.  The decoded text of a UTF-8 file is represented
  by the same \<open>string\<close> as its bytes, so encoding it back is the identity.  A path with no
  file makes \<open>open\<close> raise \<open>IOError\<close> and \<open>os.stat\<close> raise \<open>OSError\<close>.
\<close>

record disk_file =
  df_bytes :: string
  df_utf8 :: bool
  st_mode :: int

type_synonym filesystem = "string \<Rightarrow> disk_file option"

section \<open>ScannedFile\<close>

record ScannedFile =
  filename :: string
  relative_filename :: string
  output_relative_filename :: string
  is_modified :: bool
  contents :: "string option"
  in_unicode :: "bool option"
  temp_dir :: string
  is_deleted :: bool

text \<open>\<open>ScannedFile.__init__\<close>\<close>

definition new_ScannedFile :: "string \<Rightarrow> string \<Rightarrow> string \<Rightarrow> string \<Rightarrow> ScannedFile" where
  "new_ScannedFile fname rel tmp out_rel =
     \<lparr>filename = fname, relative_filename = rel, output_relative_filename = out_rel,
      is_modified = False, contents = None, in_unicode = None, temp_dir = tmp,
      is_deleted = False\<rparr>"

text \<open>\<open>ScannedFile._ReadContents\<close>\<close>

definition ReadContents :: "filesystem \<Rightarrow> string \<Rightarrow> py_error + (string \<times> bool)" where
  "ReadContents fs fname =
     (case fs fname of
        None \<Rightarrow> Inl (IOError fname)
      | Some d \<Rightarrow> Inr (df_bytes d, df_utf8 d))"

text \<open>\<open>ScannedFile._PossiblyEncode\<close>; \<open>None\<close> for \<open>in_unicode\<close> is falsy.\<close>

definition PossiblyEncode :: "string \<Rightarrow> bool option \<Rightarrow> string" where
  "PossiblyEncode c u = (if u = Some True then c else c)"

text \<open>
  \<open>ScannedFile.Contents\<close>.  The test \<open>not self._contents\<close> holds for \<open>None\<close> and for the
  empty string alike.  The result is the returned text and the file after the call.
\<close>

definition Contents :: "filesystem \<Rightarrow> ScannedFile \<Rightarrow> py_error + (string \<times> ScannedFile)" where
  "Contents fs f =
     (if contents f = None \<or> contents f = Some []
      then (case ReadContents fs (filename f) of
              Inl e \<Rightarrow> Inl e
            | Inr (c, u) \<Rightarrow> Inr (c, f\<lparr>contents := Some c, in_unicode := Some u\<rparr>))
      else Inr (the (contents f), f))"

text \<open>\<open>ScannedFile.IsBinaryFile\<close>\<close>

definition IsBinaryFile :: "filesystem \<Rightarrow> ScannedFile \<Rightarrow> py_error + (bool \<times> ScannedFile)" where
  "IsBinaryFile fs f =
     (case Contents fs f of
        Inl e \<Rightarrow> Inl e
      | Inr (c, f') \<Rightarrow> Inr (in_unicode f' \<noteq> Some True, f'))"

text \<open>
  \<open>ScannedFile.RewriteContent\<close>.  On a file whose contents were never loaded,
  \<open>self._contents\<close> is \<open>None\<close> and the call raises \<open>AttributeError\<close>.
\<close>

definition RewriteContent :: "ScannedFile \<Rightarrow> string \<Rightarrow> string \<Rightarrow> py_error + ScannedFile" where
  "RewriteContent f old_text new_text =
     (case contents f of
        None \<Rightarrow> Inl AttributeError
      | Some c \<Rightarrow> Inr (f\<lparr>contents := Some (py_replace c old_text new_text),
                        is_modified := True\<rparr>))"

text \<open>\<open>ScannedFile.WriteContents\<close>\<close>

definition WriteContents :: "ScannedFile \<Rightarrow> string \<Rightarrow> ScannedFile" where
  "WriteContents f new_text =
     (if contents f = Some new_text then f
      else f\<lparr>contents := Some new_text, is_modified := True\<rparr>)"

text \<open>\<open>ScannedFile.Delete\<close>\<close>

definition Delete :: "ScannedFile \<Rightarrow> ScannedFile" where
  "Delete f = f\<lparr>is_deleted := True, contents := Some [], is_modified := True\<rparr>"

text \<open>\<open>ScannedFile.Mode\<close>; \<open>stat.S_IEXEC\<close> is \<open>0o100\<close>, the owner's execute bit.\<close>

definition S_IEXEC :: int where
  "S_IEXEC = 64"

definition Mode :: "filesystem \<Rightarrow> ScannedFile \<Rightarrow> py_error + int" where
  "Mode fs f =
     (case fs (filename f) of
        None \<Rightarrow> Inl (OSError (filename f))
      | Some statinfo \<Rightarrow>
          (let temp = (6::int);
               temp = (if st_mode statinfo AND S_IEXEC \<noteq> 0 then temp OR 1 else temp)
           in Inr (temp + push_bit 3 temp + push_bit 6 temp)))"

section \<open>Configuration and context\<close>

text \<open>
  A compiled regular expression is used through its \<open>search\<close> method only, so it is the
  predicate "the pattern occurs somewhere in the string".  A finding is a plain string or
  a structured error (filter, trigger, file name, report text).
\<close>

type_synonym regex = "string \<Rightarrow> bool"

datatype finding =
    StrFinding string
  | RuleFinding string string string string

text \<open>
  The scrubbers themselves live in other modules.  A by-file scrubber's \<open>ScrubFile\<close> acts
  on the file it is given and on the findings of the context; a batch scrubber's
  \<open>BatchScrubFiles\<close> acts on the files of the list it is given and on the findings.
\<close>

type_synonym file_scrubber = "ScannedFile \<Rightarrow> finding list \<Rightarrow> ScannedFile \<times> finding list"

type_synonym batch_scrubber =
  "ScannedFile list \<Rightarrow> finding list \<Rightarrow> ScannedFile list \<times> finding list"

text \<open>
  \<open>ScrubberConfig\<close>.  \<open>whitelist_allows\<close> is \<open>whitelist.Allows\<close>; \<open>rearranging_config\<close> is
  \<open>None\<close> when the configuration is empty and otherwise the \<open>RenameFile\<close> of the
  \<open>FileRenamer\<close> built from it; the two batch maps are lists in the order in which
  \<open>iteritems\<close> enumerates them.
\<close>

record ScrubberConfig =
  codebase :: string
  input_files :: "string list"
  modify :: bool
  output_tar :: string
  cfg_temp_dir :: string
  ignore_files_re :: regex
  do_not_scrub_files_re :: regex
  extension_map :: "(regex \<times> string) list"
  whitelist_allows :: "finding \<Rightarrow> bool"
  rearranging_config :: "(string \<Rightarrow> py_error + string) option"
  known_filenames :: "string set"
  extension_to_scrubber_map :: "string \<Rightarrow> file_scrubber list option"
  default_scrubbers :: "file_scrubber list"
  extension_to_pre_batch_scrubbers_map :: "(string \<times> batch_scrubber list) list"
  extension_to_post_batch_scrubbers_map :: "(string \<times> batch_scrubber list) list"

text \<open>The value \<open>ScrubberConfig.__init__\<close> gives \<open>known_filenames\<close>.\<close>

definition default_known_filenames :: "string set" where
  "default_known_filenames =
     {''.gitignore'', ''AUTHORS'', ''CONTRIBUTORS'', ''COPYING'', ''LICENSE'', ''Makefile'',
      ''README''}"

record ScrubberContext =
  config :: ScrubberConfig
  errors :: "finding list"
  ctx_temp_dir :: string
  files :: "ScannedFile list"
  unscrubbed_file_extensions :: "string set"
  unscrubbed_files :: "string set"

definition DIFFS_DIR :: string where "DIFFS_DIR = ''diffs''"
definition ORIGINAL_DIR :: string where "ORIGINAL_DIR = ''originals''"
definition OUTPUT_DIR :: string where "OUTPUT_DIR = ''output''"
definition MODIFIED_DIR :: string where "MODIFIED_DIR = ''modified''"

text \<open>\<open>ScrubberContext.GetScratchDir\<close>\<close>

definition GetScratchDir :: "string \<Rightarrow> string" where
  "GetScratchDir tmp = path_join tmp ''scratch''"

text \<open>\<open>ScrubberContext.AddError\<close>\<close>

definition AddError :: "ScrubberContext \<Rightarrow> finding \<Rightarrow> ScrubberContext" where
  "AddError ctx error =
     (if whitelist_allows (config ctx) error then ctx
      else ctx\<lparr>errors := errors ctx @ [error]\<rparr>)"

text \<open>\<open>ScrubberContext.Status\<close>\<close>

definition Status :: "ScrubberContext \<Rightarrow> int" where
  "Status ctx = (if errors ctx \<noteq> [] then 1 else 0)"

text \<open>
  \<open>ScrubberContext.RelativeFilename\<close>; \<open>abspath\<close> is \<open>os.path.abspath\<close>, which depends on
  the working directory.  \<open>result[0]\<close> raises \<open>IndexError\<close> on the empty string.
\<close>

definition RelativeFilename ::
  "(string \<Rightarrow> string) \<Rightarrow> ScrubberConfig \<Rightarrow> string \<Rightarrow> py_error + string" where
  "RelativeFilename abspath cfg fname =
     (let result = py_replace1 (abspath fname) (codebase cfg) []
      in case result of
           [] \<Rightarrow> Inl IndexError
         | c # rest \<Rightarrow> Inr (if c = CHR ''/'' then rest else result))"

text \<open>\<open>ScrubberContext.FindFiles\<close>: the loop over \<open>config.input_files\<close>.\<close>

fun FindFiles_loop ::
  "(string \<Rightarrow> string) \<Rightarrow> ScrubberConfig \<Rightarrow> string \<Rightarrow> string list
    \<Rightarrow> py_error + ScannedFile list" where
  "FindFiles_loop abspath cfg scratch [] = Inr []"
| "FindFiles_loop abspath cfg scratch (full_filename # rest) =
     (case RelativeFilename abspath cfg full_filename of
        Inl e \<Rightarrow> Inl e
      | Inr rel \<Rightarrow>
          if ignore_files_re cfg rel then FindFiles_loop abspath cfg scratch rest
          else (case (case rearranging_config cfg of
                        Some RenameFile \<Rightarrow> RenameFile rel
                      | None \<Rightarrow> Inr rel) of
                  Inl e \<Rightarrow> Inl e
                | Inr out_rel \<Rightarrow>
                    (case FindFiles_loop abspath cfg scratch rest of
                       Inl e \<Rightarrow> Inl e
                     | Inr result \<Rightarrow>
                         Inr (new_ScannedFile full_filename rel scratch out_rel # result))))"

definition FindFiles ::
  "(string \<Rightarrow> string) \<Rightarrow> string \<Rightarrow> ScrubberConfig \<Rightarrow> py_error + ScannedFile list" where
  "FindFiles abspath tmp cfg =
     FindFiles_loop abspath cfg (GetScratchDir tmp) (input_files cfg)"

text \<open>
  \<open>ScrubberContext.__init__\<close> with \<open>CreateTempDir\<close>: the temporary directory is the one the
  configuration names or, when it names none, the directory \<open>mkdtemp\<close> that
  \<open>tempfile.mkdtemp\<close> makes; the files are those that \<open>FindFiles\<close> returns.
\<close>

definition new_ScrubberContext ::
  "(string \<Rightarrow> string) \<Rightarrow> string \<Rightarrow> ScrubberConfig \<Rightarrow> py_error + ScrubberContext" where
  "new_ScrubberContext abspath mkdtemp scrubber_config =
     (let tmp = (if cfg_temp_dir scrubber_config \<noteq> [] then cfg_temp_dir scrubber_config
                 else mkdtemp)
      in case FindFiles abspath tmp scrubber_config of
           Inl e \<Rightarrow> Inl e
         | Inr found \<Rightarrow>
             Inr \<lparr>config = scrubber_config, errors = [], ctx_temp_dir = tmp, files = found,
                  unscrubbed_file_extensions = {}, unscrubbed_files = {}\<rparr>)"

text \<open>\<open>ScrubberContext._GetExtension\<close>: the loop over the overrides, then the extension.\<close>

fun extension_override :: "(regex \<times> string) list \<Rightarrow> string \<Rightarrow> string option" where
  "extension_override [] fname = None"
| "extension_override ((filename_re, extension) # rest) fname =
     (if filename_re fname then Some extension else extension_override rest fname)"

definition GetExtension :: "ScrubberConfig \<Rightarrow> string \<Rightarrow> string" where
  "GetExtension cfg fname =
     (case extension_override (extension_map cfg) fname of
        Some extension \<Rightarrow> extension
      | None \<Rightarrow>
          (let extension = snd (splitext (basename fname))
           in if extension = [] \<and> startswith fname ''.'' then fname else extension))"

text \<open>\<open>ScrubberContext.ShouldScrubFile\<close>; \<open>IsBinaryFile\<close> loads the file.\<close>

definition ShouldScrubFile ::
  "filesystem \<Rightarrow> ScrubberConfig \<Rightarrow> ScannedFile \<Rightarrow> py_error + (bool \<times> ScannedFile)" where
  "ShouldScrubFile fs cfg f =
     (case IsBinaryFile fs f of
        Inl e \<Rightarrow> Inl e
      | Inr (binary, f') \<Rightarrow>
          Inr (if binary \<or> do_not_scrub_files_re cfg (relative_filename f') then False
               else True, f'))"

text \<open>\<open>ScrubberContext.ScrubbersForFile\<close>: the scrubbers and the context after the call.\<close>

definition ScrubbersForFile ::
  "ScrubberContext \<Rightarrow> ScannedFile \<Rightarrow> file_scrubber list \<times> ScrubberContext" where
  "ScrubbersForFile ctx f =
     (let extension = GetExtension (config ctx) (relative_filename f)
      in case extension_to_scrubber_map (config ctx) extension of
           Some scrubbers \<Rightarrow> (scrubbers, ctx)
         | None \<Rightarrow>
             (default_scrubbers (config ctx),
              if basename (filename f) \<in> known_filenames (config ctx) then ctx
              else ctx\<lparr>unscrubbed_file_extensions :=
                         insert extension (unscrubbed_file_extensions ctx)\<rparr>))"

section \<open>Scan\<close>

text \<open>
  \<open>self.files\<close> is a list of objects, and \<open>files_to_scrub\<close> holds references to some of
  them: here a reference is the index of the file in \<open>files\<close>.  The state of a scan is
  the context together with a trace: the index of the file of every \<open>ScrubFile\<close> call and
  the indices of the files of every \<open>BatchScrubFiles\<close> call, in order.  What \<open>Scan\<close>
  writes to standard output is left out.
\<close>

type_synonym scan_state = "ScrubberContext \<times> nat list"

text \<open>
  The list comprehension that opens \<open>Scan\<close>: \<open>ShouldScrubFile\<close> is called on every file
  (which loads it); the result is the files after the calls and the indices kept,
  counted from \<open>k\<close>.
\<close>

fun files_to_scrub ::
  "filesystem \<Rightarrow> ScrubberConfig \<Rightarrow> ScannedFile list \<Rightarrow> nat
    \<Rightarrow> py_error + (ScannedFile list \<times> nat list)" where
  "files_to_scrub fs cfg [] k = Inr ([], [])"
| "files_to_scrub fs cfg (f # rest) k =
     (case ShouldScrubFile fs cfg f of
        Inl e \<Rightarrow> Inl e
      | Inr (keep, f') \<Rightarrow>
          (case files_to_scrub fs cfg rest (Suc k) of
             Inl e \<Rightarrow> Inl e
           | Inr (rest', idxs) \<Rightarrow> Inr (f' # rest', if keep then k # idxs else idxs)))"

text \<open>The first loop of \<open>_RunBatchScrubbers\<close>: the dictionary \<open>files_by_extension\<close>.\<close>

fun files_by_extension ::
  "ScrubberConfig \<Rightarrow> ScannedFile list \<Rightarrow> nat list \<Rightarrow> (string \<Rightarrow> nat list option)
    \<Rightarrow> (string \<Rightarrow> nat list option)" where
  "files_by_extension cfg store [] m = m"
| "files_by_extension cfg store (i # rest) m =
     (let ext = GetExtension cfg (relative_filename (store ! i))
      in files_by_extension cfg store rest
           (m(ext \<mapsto> (case m ext of None \<Rightarrow> [] | Some l \<Rightarrow> l) @ [i])))"

text \<open>The files a batch scrubber returns replace the files it was given.\<close>

fun write_back :: "nat list \<Rightarrow> ScannedFile list \<Rightarrow> ScannedFile list \<Rightarrow> ScannedFile list" where
  "write_back (i # idxs) (f # fl) store = write_back idxs fl (store[i := f])"
| "write_back idxs fl store = store"

definition BatchScrubFiles :: "batch_scrubber \<Rightarrow> nat list \<Rightarrow> scan_state \<Rightarrow> scan_state" where
  "BatchScrubFiles batch_scrubber idxs st =
     (case st of (ctx, trace) \<Rightarrow>
        (case batch_scrubber (map (\<lambda>i. files ctx ! i) idxs) (errors ctx) of
           (fl, errs) \<Rightarrow>
             (ctx\<lparr>files := write_back idxs fl (files ctx), errors := errs\<rparr>, trace @ idxs)))"

text \<open>The second loop of \<open>_RunBatchScrubbers\<close>, inner and outer.\<close>

fun batch_scrubbers_loop ::
  "batch_scrubber list \<Rightarrow> string \<Rightarrow> (string \<Rightarrow> nat list option) \<Rightarrow> scan_state \<Rightarrow> scan_state"
  where
  "batch_scrubbers_loop [] ext by_ext st = st"
| "batch_scrubbers_loop (batch_scrubber # rest) ext by_ext st =
     batch_scrubbers_loop rest ext by_ext
       (case by_ext ext of
          Some idxs \<Rightarrow> BatchScrubFiles batch_scrubber idxs st
        | None \<Rightarrow> st)"

fun batch_map_loop ::
  "(string \<times> batch_scrubber list) list \<Rightarrow> (string \<Rightarrow> nat list option) \<Rightarrow> scan_state
    \<Rightarrow> scan_state" where
  "batch_map_loop [] by_ext st = st"
| "batch_map_loop ((ext, batch_scrubbers) # rest) by_ext st =
     batch_map_loop rest by_ext (batch_scrubbers_loop batch_scrubbers ext by_ext st)"

text \<open>\<open>ScrubberContext._RunBatchScrubbers\<close>\<close>

definition RunBatchScrubbers ::
  "(string \<times> batch_scrubber list) list \<Rightarrow> nat list \<Rightarrow> scan_state \<Rightarrow> scan_state" where
  "RunBatchScrubbers batch_scrubbers_map file_objs st =
     batch_map_loop batch_scrubbers_map
       (files_by_extension (config (fst st)) (files (fst st)) file_objs Map.empty) st"

text \<open>
  The inner loop of \<open>Scan\<close> over the scrubbers of one file, which stops at a deleted file.
\<close>

fun scrubbers_loop :: "file_scrubber list \<Rightarrow> nat \<Rightarrow> scan_state \<Rightarrow> scan_state" where
  "scrubbers_loop [] i st = st"
| "scrubbers_loop (scrubber # rest) i (ctx, trace) =
     (if is_deleted (files ctx ! i) then (ctx, trace)
      else (case scrubber (files ctx ! i) (errors ctx) of
              (f', errs) \<Rightarrow>
                scrubbers_loop rest i
                  (ctx\<lparr>files := (files ctx)[i := f'], errors := errs\<rparr>, trace @ [i])))"

text \<open>The outer loop of \<open>Scan\<close> over \<open>files_to_scrub\<close>.\<close>

fun scrub_files_loop :: "nat list \<Rightarrow> scan_state \<Rightarrow> scan_state" where
  "scrub_files_loop [] st = st"
| "scrub_files_loop (i # rest) (ctx, trace) =
     (case ScrubbersForFile ctx (files ctx ! i) of
        (scrubbers, ctx') \<Rightarrow> scrub_files_loop rest (scrubbers_loop scrubbers i (ctx', trace)))"

text \<open>\<open>ScrubberContext.Scan\<close>\<close>

definition Scan :: "filesystem \<Rightarrow> ScrubberContext \<Rightarrow> py_error + scan_state" where
  "Scan fs ctx =
     (case files_to_scrub fs (config ctx) (files ctx) 0 of
        Inl e \<Rightarrow> Inl e
      | Inr (loaded, idxs) \<Rightarrow>
          (let st0 = (ctx\<lparr>files := loaded\<rparr>, []);
               st1 = RunBatchScrubbers (extension_to_pre_batch_scrubbers_map (config ctx)) idxs st0;
               st2 = scrub_files_loop idxs st1;
               st3 = RunBatchScrubbers (extension_to_post_batch_scrubbers_map (config ctx)) idxs st2
           in Inr st3))"

section \<open>WriteOutput\<close>

text \<open>
  What the emitter does to the world is a list of actions in the order in which they
  happen.  A \<open>RunDiff\<close> records the two files compared, the file its output goes to and the
  exit status the process ended with; a \<open>RunTar\<close> the archive, the directory archived and
  the exit status.  The actions of one file change the file system that the files after it
  are read from.
\<close>

datatype action =
    MakeDirs string
  | WriteFile string string int
  | RunDiff string string string int
  | Remove string
  | Rename string string
  | Print string
  | RunTar string string int

text \<open>The exit statuses of the subprocesses, which the environment decides.\<close>

record subprocesses =
  diff_returncode :: "string \<Rightarrow> string \<Rightarrow> int"
  tar_returncode :: int

definition bindE :: "py_error + 'a \<Rightarrow> ('a \<Rightarrow> py_error + 'b) \<Rightarrow> py_error + 'b" where
  "bindE m k = (case m of Inl e \<Rightarrow> Inl e | Inr x \<Rightarrow> k x)"

text \<open>
  \<open>ScannedFile.WriteToFile\<close>: the file after the call (\<open>Contents\<close> may load it) and the
  write performed.
\<close>

definition WriteToFile ::
  "filesystem \<Rightarrow> ScannedFile \<Rightarrow> string \<Rightarrow> bool \<Rightarrow> py_error + (ScannedFile \<times> action)" where
  "WriteToFile fs f path original =
     bindE (Contents fs f) (\<lambda>(c, f').
     bindE (if original
            then bindE (ReadContents fs (filename f')) (\<lambda>(c', u). Inr (PossiblyEncode c' (Some u)))
            else Inr (PossiblyEncode c (in_unicode f'))) (\<lambda>encoded_contents.
     bindE (Mode fs f') (\<lambda>mode.
     Inr (f', WriteFile path encoded_contents mode))))"

text \<open>
  The body of the loop of \<open>WriteOutput\<close> for one file, in three parts: the output tree
  (step 0), the originals and modified trees and the diff (steps 1 to 3), the source tree
  (step 4).  \<open>tmp\<close> is \<open>self._temp_dir\<close>.  In the turn of one file every read of the
  source file comes before the writes to the source tree, so the turn reads the file
  system as it found it.
\<close>

definition write_output_tree ::
  "filesystem \<Rightarrow> string \<Rightarrow> ScannedFile \<Rightarrow> py_error + (ScannedFile \<times> action list)" where
  "write_output_tree fs tmp f =
     (if is_deleted f then Inr (f, [])
      else (let output_filename = path_join3 tmp OUTPUT_DIR (output_relative_filename f)
            in bindE (WriteToFile fs f output_filename False) (\<lambda>(f', w).
               Inr (f', [MakeDirs (dirname output_filename), w]))))"

definition write_modified_tree ::
  "filesystem \<Rightarrow> string \<Rightarrow> ScannedFile \<Rightarrow> py_error + (ScannedFile \<times> string \<times> action list)" where
  "write_modified_tree fs tmp f =
     (if is_deleted f then Inr (f, ''/dev/null'', [])
      else (let modified_filename = path_join3 tmp MODIFIED_DIR (output_relative_filename f)
            in bindE (WriteToFile fs f modified_filename False) (\<lambda>(f', w).
               Inr (f', modified_filename, [MakeDirs (dirname modified_filename), w]))))"

definition write_source_tree ::
  "filesystem \<Rightarrow> ScannedFile \<Rightarrow> py_error + (ScannedFile \<times> action list)" where
  "write_source_tree fs f =
     (if is_deleted f
      then Inr (f, [Remove (filename f), Print (''Deleted '' @ filename f)])
      else (let tmp_filename = filename f @ ''.tmp''
            in bindE (WriteToFile fs f tmp_filename False) (\<lambda>(f', w).
               Inr (f', [w, Rename tmp_filename (filename f'),
                         Print (''Modified '' @ filename f')]))))"

definition write_file_output ::
  "filesystem \<Rightarrow> subprocesses \<Rightarrow> ScrubberConfig \<Rightarrow> string \<Rightarrow> ScannedFile
    \<Rightarrow> py_error + (ScannedFile \<times> action list)" where
  "write_file_output fs sub cfg tmp file_obj =
     bindE (write_output_tree fs tmp file_obj) (\<lambda>(f0, acts0).
     if is_modified f0
     then (let original_filename = path_join3 tmp ORIGINAL_DIR (relative_filename f0)
           in bindE (WriteToFile fs f0 original_filename True) (\<lambda>(f1, w1).
              bindE (write_modified_tree fs tmp f1) (\<lambda>(f2, modified_filename, acts2).
              (let diff_filename = path_join3 tmp DIFFS_DIR (relative_filename f2);
                   acts3 = acts0 @ [MakeDirs (dirname original_filename), w1] @ acts2
                           @ [MakeDirs (dirname diff_filename),
                              RunDiff original_filename modified_filename diff_filename
                                (diff_returncode sub original_filename modified_filename)]
               in if modify cfg
                  then bindE (write_source_tree fs f2) (\<lambda>(f4, acts4). Inr (f4, acts3 @ acts4))
                  else Inr (f2, acts3)))))
     else Inr (f0, acts0))"

text \<open>
  What the platform decides when a file is written: whether the bytes written decode as
  UTF-8, the \<open>st_mode\<close> of the file afterwards (from the \<open>st_mode\<close> of the file that was at
  the path, if any, and the mode asked for), and what \<open>diff\<close> prints for two files.
\<close>

record platform =
  decodes :: "string \<Rightarrow> bool"
  mode_after_write :: "int option \<Rightarrow> int \<Rightarrow> int"
  diff_stdout :: "string option \<Rightarrow> string option \<Rightarrow> string"

text \<open>A file is created at a path, or the file there is replaced.\<close>

definition write_file ::
  "platform \<Rightarrow> filesystem \<Rightarrow> string \<Rightarrow> string \<Rightarrow> int \<Rightarrow> filesystem" where
  "write_file plat fs path bytes mode =
     fs(path \<mapsto> \<lparr>df_bytes = bytes, df_utf8 = decodes plat bytes,
                  st_mode = mode_after_write plat (map_option st_mode (fs path)) mode\<rparr>)"

text \<open>
  The file system after an action.  \<open>file_util.Write\<close> writes the file; the \<open>diff\<close> process
  has its standard output opened on the diff file, which empties it, and then reads the
  two files; \<open>os.remove\<close> and \<open>os.rename\<close> raise \<open>OSError\<close> when the file is not there.
  Directories are not files, and what \<open>tar\<close> leaves at the archive path is not followed:
  nothing is read after it.
\<close>

fun apply_action :: "platform \<Rightarrow> filesystem \<Rightarrow> action \<Rightarrow> py_error + filesystem" where
  "apply_action plat fs (MakeDirs d) = Inr fs"
| "apply_action plat fs (WriteFile path bytes mode) = Inr (write_file plat fs path bytes mode)"
| "apply_action plat fs (RunDiff original modified diff_filename returncode) =
     (let opened = write_file plat fs diff_filename [] 438
      in Inr (write_file plat opened diff_filename
                (diff_stdout plat (map_option df_bytes (opened original))
                   (map_option df_bytes (opened modified))) 438))"
| "apply_action plat fs (Remove path) =
     (if fs path = None then Inl (OSError path) else Inr (fs(path := None)))"
| "apply_action plat fs (Rename src dst) =
     (case fs src of
        None \<Rightarrow> Inl (OSError src)
      | Some d \<Rightarrow> Inr ((fs(src := None))(dst \<mapsto> d)))"
| "apply_action plat fs (Print s) = Inr fs"
| "apply_action plat fs (RunTar archive dir returncode) = Inr fs"

fun apply_actions :: "platform \<Rightarrow> filesystem \<Rightarrow> action list \<Rightarrow> py_error + filesystem" where
  "apply_actions plat fs [] = Inr fs"
| "apply_actions plat fs (a # acts) =
     bindE (apply_action plat fs a) (\<lambda>fs'. apply_actions plat fs' acts)"

text \<open>
  The loop of \<open>WriteOutput\<close> over \<open>self.files\<close>: each file is emitted on the file system
  that the actions of the files before it have left.
\<close>

fun write_files_loop ::
  "platform \<Rightarrow> filesystem \<Rightarrow> subprocesses \<Rightarrow> ScrubberConfig \<Rightarrow> string \<Rightarrow> ScannedFile list
    \<Rightarrow> py_error + (ScannedFile list \<times> action list)" where
  "write_files_loop plat fs sub cfg tmp [] = Inr ([], [])"
| "write_files_loop plat fs sub cfg tmp (file_obj # rest) =
     bindE (write_file_output fs sub cfg tmp file_obj) (\<lambda>(f', acts).
     bindE (apply_actions plat fs acts) (\<lambda>fs'.
     bindE (write_files_loop plat fs' sub cfg tmp rest) (\<lambda>(rest', acts').
     Inr (f' # rest', acts @ acts'))))"

text \<open>Step 5 of \<open>WriteOutput\<close>: the tar of the output tree.\<close>

definition create_output_tar ::
  "subprocesses \<Rightarrow> ScrubberContext \<Rightarrow> ScrubberContext \<times> action list" where
  "create_output_tar sub ctx =
     (if output_tar (config ctx) \<noteq> []
      then (let returncode = tar_returncode sub;
                run = RunTar (output_tar (config ctx)) (path_join (ctx_temp_dir ctx) OUTPUT_DIR)
                        returncode
            in if returncode \<noteq> 0
               then (AddError ctx (StrFinding ''tar finished unsuccessfully''), [run])
               else (ctx, [run]))
      else (ctx, []))"

text \<open>\<open>ScrubberContext.WriteOutput\<close>\<close>

definition WriteOutput ::
  "platform \<Rightarrow> filesystem \<Rightarrow> subprocesses \<Rightarrow> ScrubberContext
    \<Rightarrow> py_error + (ScrubberContext \<times> action list)" where
  "WriteOutput plat fs sub ctx =
     bindE (write_files_loop plat fs sub (config ctx) (ctx_temp_dir ctx) (files ctx))
       (\<lambda>(fl, acts).
     (case create_output_tar sub (ctx\<lparr>files := fl\<rparr>) of
        (ctx', tar_acts) \<Rightarrow>
          Inr (ctx', [MakeDirs (path_join (ctx_temp_dir ctx) OUTPUT_DIR),
                      MakeDirs (path_join (ctx_temp_dir ctx) MODIFIED_DIR)] @ acts @ tar_acts)))"

section \<open>main\<close>

text \<open>
  \<open>main\<close> ends in one of three ways: \<open>BadCommand\<close> ends the process with an exit status and
  a message (\<open>app.usage\<close> with \<open>exitcode=3\<close>), the function returns the status of the run,
  or an exception leaves it.
\<close>

datatype outcome =
    SystemExit int string
  | Returned int
  | Raised py_error

definition MAIN_USAGE_STRING :: string where
  "MAIN_USAGE_STRING =
     ''List exactly one directory to scrub and, if you want, set ''
     @ ''--explicit_inputfile_list to provide a list of input files.''"

text \<open>\<open>BadCommand\<close>\<close>

definition BadCommand :: "string option \<Rightarrow> outcome" where
  "BadCommand message =
     (case message of
        Some m \<Rightarrow>
          (if m \<noteq> [] then SystemExit 3 (m @ [CHR 0x0A] @ MAIN_USAGE_STRING)
           else SystemExit 3 MAIN_USAGE_STRING)
      | None \<Rightarrow> SystemExit 3 MAIN_USAGE_STRING)"

text \<open>Where \<open>main\<close> takes the configuration from.\<close>

datatype config_source =
    ConfigFile string
  | ConfigData string
  | EmptyConfig

text \<open>
  What \<open>main\<close> calls outside this model: \<open>os.path.abspath\<close>; \<open>GetInputFiles\<close>, which walks
  the directory or checks the explicit list and returns an error string and the input
  files; and the run itself, from the construction of the configuration and the context
  through \<open>Scan\<close>, \<open>WriteOutput\<close> and \<open>Report\<close> to \<open>context.Status()\<close>.
\<close>

record main_env =
  env_abspath :: "string \<Rightarrow> string"
  env_GetInputFiles :: "string \<Rightarrow> string option \<times> string list"
  env_run :: "config_source \<Rightarrow> string \<Rightarrow> string list \<Rightarrow> py_error + int"

text \<open>\<open>main\<close>; \<open>config_file\<close> and \<open>config_data\<close> are the values of the two flags.\<close>

definition main :: "main_env \<Rightarrow> string \<Rightarrow> string \<Rightarrow> string list \<Rightarrow> outcome" where
  "main env config_file config_data args =
     (if \<not> length args = 2 then BadCommand (Some ''Must list exactly one directory to scrub.'')
      else if config_data \<noteq> [] \<and> config_file \<noteq> []
      then BadCommand (Some ''Specify at most one of --config_data and --config_file.'')
      else (let abs_codebase = env_abspath env (args ! 1)
            in case env_GetInputFiles env abs_codebase of
                 (err_str, inputs) \<Rightarrow>
                   if err_str \<noteq> None \<and> err_str \<noteq> Some [] then BadCommand err_str
                   else (case env_run env
                                 (if config_file \<noteq> [] then ConfigFile config_file
                                  else if config_data \<noteq> [] then ConfigData config_data
                                  else EmptyConfig)
                                 abs_codebase inputs of
                           Inl e \<Rightarrow> Raised e
                         | Inr status \<Rightarrow> Returned status)))"

section \<open>Translators\<close>

text \<open>
  A codebase as \<open>translators.py\<close> uses it: built from a path, an \<open>additional_files_re\<close>
  and a project space, and read through \<open>ExpandedPath\<close>, \<open>AdditionalFilesRe\<close> and
  \<open>ProjectSpace\<close>.
\<close>

record Codebase =
  cb_path :: string
  cb_additional_files_re :: "string option"
  cb_project_space :: string

definition ProjectSpace :: "Codebase \<Rightarrow> string" where
  "ProjectSpace cb = cb_project_space cb"

definition ExpandedPath :: "Codebase \<Rightarrow> string" where
  "ExpandedPath cb = cb_path cb"

definition AdditionalFilesRe :: "Codebase \<Rightarrow> string option" where
  "AdditionalFilesRe cb = cb_additional_files_re cb"

text \<open>
  The interface \<open>Translator\<close>: three methods, each of which may raise (those of the base
  class raise \<open>NotImplementedError\<close>).
\<close>

record Translator =
  FromProjectSpace :: "py_error + string"
  ToProjectSpace :: "py_error + string"
  Translate :: "Codebase \<Rightarrow> py_error + Codebase"

definition wrong_project_space :: "string \<Rightarrow> string \<Rightarrow> Codebase \<Rightarrow> py_error" where
  "wrong_project_space from_space to_space cb =
     BaseError (''Attempting to translate Codebase from project space '' @ from_space
                @ '' to '' @ to_space @ '', but it is in project space '' @ ProjectSpace cb)"

definition ScrubberInvokingTranslator :: "string \<Rightarrow> string \<Rightarrow> Translator" where
  "ScrubberInvokingTranslator from_project_space to_project_space =
     \<lparr>FromProjectSpace = Inr from_project_space,
      ToProjectSpace = Inr to_project_space,
      Translate = (\<lambda>cb. Inl NotImplementedError)\<rparr>"

definition IdentityTranslator :: "string \<Rightarrow> string \<Rightarrow> Translator" where
  "IdentityTranslator from_project_space to_project_space =
     \<lparr>FromProjectSpace = Inr from_project_space,
      ToProjectSpace = Inr to_project_space,
      Translate = (\<lambda>cb.
        if ProjectSpace cb \<noteq> from_project_space
        then Inl (wrong_project_space from_project_space to_project_space cb)
        else Inr \<lparr>cb_path = ExpandedPath cb,
                  cb_additional_files_re = AdditionalFilesRe cb,
                  cb_project_space = to_project_space\<rparr>)\<rparr>"

text \<open>
  Every method call on a translator is recorded with the position of the translator in
  the list.
\<close>

datatype translator_call =
    Call_FromProjectSpace nat
  | Call_ToProjectSpace nat
  | Call_Translate nat

text \<open>
  The loop of \<open>TranslateToProjectSpace\<close> with its \<open>else\<close> branch; \<open>k\<close> is the position of
  the first translator of the list.
\<close>

fun translators_loop ::
  "Codebase \<Rightarrow> string \<Rightarrow> string \<Rightarrow> Translator list \<Rightarrow> nat
    \<Rightarrow> (py_error + Codebase) \<times> translator_call list" where
  "translators_loop cb original_project_space to_project_space [] k =
     (Inl (BaseError (''Could find no translator from '' @ original_project_space
                      @ '' to '' @ to_project_space)), [])"
| "translators_loop cb original_project_space to_project_space (t # rest) k =
     (case FromProjectSpace t of
        Inl e \<Rightarrow> (Inl e, [Call_FromProjectSpace k])
      | Inr from_space \<Rightarrow>
          if from_space = original_project_space
          then (case ToProjectSpace t of
                  Inl e \<Rightarrow> (Inl e, [Call_FromProjectSpace k, Call_ToProjectSpace k])
                | Inr to_space \<Rightarrow>
                    if to_space = to_project_space
                    then (Translate t cb,
                          [Call_FromProjectSpace k, Call_ToProjectSpace k, Call_Translate k])
                    else (case translators_loop cb original_project_space to_project_space
                                 rest (Suc k) of
                            (r, calls) \<Rightarrow>
                              (r, Call_FromProjectSpace k # Call_ToProjectSpace k # calls)))
          else (case translators_loop cb original_project_space to_project_space rest (Suc k) of
                  (r, calls) \<Rightarrow> (r, Call_FromProjectSpace k # calls)))"

text \<open>\<open>TranslateToProjectSpace\<close>: what it returns or raises, and the calls it made.\<close>

definition TranslateToProjectSpace ::
  "Codebase \<Rightarrow> string \<Rightarrow> Translator list \<Rightarrow> (py_error + Codebase) \<times> translator_call list"
  where
  "TranslateToProjectSpace cb to_project_space translators =
     (let original_project_space = ProjectSpace cb
      in if original_project_space = to_project_space then (Inr cb, [])
         else translators_loop cb original_project_space to_project_space translators 0)"

section \<open>Example inputs\<close>

text \<open>
  A small codebase \<open>/c\<close>: a text file, a script whose only execute bit is the group's
  (\<open>0o100654\<close>), a script executable by its owner (\<open>0o100755\<close>), a \<open>README\<close> and a binary image.
\<close>

definition ex_fs :: filesystem where
  "ex_fs =
     [''/c/a.txt'' \<mapsto> \<lparr>df_bytes = ''abc'', df_utf8 = True, st_mode = 33188\<rparr>,
      ''/c/run.sh'' \<mapsto> \<lparr>df_bytes = ''echo'', df_utf8 = True, st_mode = 33196\<rparr>,
      ''/c/go.sh'' \<mapsto> \<lparr>df_bytes = ''exit'', df_utf8 = True, st_mode = 33261\<rparr>,
      ''/c/README'' \<mapsto> \<lparr>df_bytes = ''read me'', df_utf8 = True, st_mode = 33188\<rparr>,
      ''/c/logo.png'' \<mapsto> \<lparr>df_bytes = ''PNG'', df_utf8 = False, st_mode = 33188\<rparr>]"

definition ex_a_txt :: ScannedFile where
  "ex_a_txt = new_ScannedFile ''/c/a.txt'' ''a.txt'' ''/t/scratch'' ''a.txt''"

definition ex_run_sh :: ScannedFile where
  "ex_run_sh = new_ScannedFile ''/c/run.sh'' ''run.sh'' ''/t/scratch'' ''run.sh''"

definition ex_go_sh :: ScannedFile where
  "ex_go_sh = new_ScannedFile ''/c/go.sh'' ''go.sh'' ''/t/scratch'' ''go.sh''"

definition ex_a_txt_loaded :: ScannedFile where
  "ex_a_txt_loaded = ex_a_txt\<lparr>contents := Some ''abc'', in_unicode := Some True\<rparr>"

definition ex_scrubber :: file_scrubber where
  "ex_scrubber f errs = (WriteContents f ''scrubbed'', errs @ [StrFinding ''found''])"

definition ex_config :: ScrubberConfig where
  "ex_config =
     \<lparr>codebase = ''/c'',
      input_files = [''/c/a.txt'', ''/c/logo.png'', ''/c/skip.tmp'', ''/c/README''],
      modify = False, output_tar = [], cfg_temp_dir = ''/t'',
      ignore_files_re = (\<lambda>s. endswith s ''.tmp''),
      do_not_scrub_files_re = (\<lambda>s. False),
      extension_map = [],
      whitelist_allows = (\<lambda>e. False),
      rearranging_config = None,
      known_filenames = default_known_filenames,
      extension_to_scrubber_map = [''.txt'' \<mapsto> [ex_scrubber]],
      default_scrubbers = [ex_scrubber],
      extension_to_pre_batch_scrubbers_map = [],
      extension_to_post_batch_scrubbers_map = []\<rparr>"

definition ex_logo_png :: ScannedFile where
  "ex_logo_png = new_ScannedFile ''/c/logo.png'' ''logo.png'' ''/t/scratch'' ''logo.png''"

definition ex_README :: ScannedFile where
  "ex_README = new_ScannedFile ''/c/README'' ''README'' ''/t/scratch'' ''README''"

definition ex_files :: "ScannedFile list" where
  "ex_files = [ex_a_txt, ex_logo_png, ex_README]"

definition ex_ctx :: ScrubberContext where
  "ex_ctx =
     \<lparr>config = ex_config, errors = [], ctx_temp_dir = ''/t'', files = ex_files,
      unscrubbed_file_extensions = {}, unscrubbed_files = {}\<rparr>"

definition ex_scanned :: ScrubberContext where
  "ex_scanned =
     ex_ctx\<lparr>errors := [StrFinding ''found'', StrFinding ''found''],
            files :=
              [ex_a_txt\<lparr>contents := Some ''scrubbed'', in_unicode := Some True,
                        is_modified := True\<rparr>,
               ex_logo_png\<lparr>contents := Some ''PNG'', in_unicode := Some False\<rparr>,
               ex_README\<lparr>contents := Some ''scrubbed'', in_unicode := Some True,
                         is_modified := True\<rparr>]\<rparr>"

definition ex_sub :: subprocesses where
  "ex_sub = \<lparr>diff_returncode = (\<lambda>original modified. 2), tar_returncode = 0\<rparr>"

definition ex_a_txt_deleted :: ScannedFile where
  "ex_a_txt_deleted = Delete ex_a_txt_loaded"

definition ex_a_txt_scrubbed :: ScannedFile where
  "ex_a_txt_scrubbed = ex_a_txt_loaded\<lparr>contents := Some ''scrubbed'', is_modified := True\<rparr>"

definition ex_emit_ctx :: ScrubberContext where
  "ex_emit_ctx = ex_ctx\<lparr>files := [ex_a_txt_scrubbed]\<rparr>"

definition ex_env :: main_env where
  "ex_env =
     \<lparr>env_abspath = (\<lambda>p. p),
      env_GetInputFiles = (\<lambda>c. (None, [''/c/a.txt''])),
      env_run = (\<lambda>source c inputs.
        case source of EmptyConfig \<Rightarrow> Inr 0 | ConfigFile p \<Rightarrow> Inr 1 | ConfigData d \<Rightarrow> Inr 1)\<rparr>"

definition ex_codebase :: Codebase where
  "ex_codebase = \<lparr>cb_path = ''/c'', cb_additional_files_re = None, cb_project_space = ''foo''\<rparr>"

definition ex_config_modify :: ScrubberConfig where
  "ex_config_modify = ex_config\<lparr>modify := True\<rparr>"



text \<open>The same environment when the argument is not a directory.\<close>

definition ex_env_no_dir :: main_env where
  "ex_env_no_dir = ex_env\<lparr>env_GetInputFiles := (\<lambda>c. (Some ''/c is not a directory'', []))\<rparr>"

text \<open>
  The files of the example context once loaded, and the state of its scan when the loop
  reaches \<open>README\<close>, after \<open>a.txt\<close>.
\<close>

definition ex_loaded :: "ScannedFile list" where
  "ex_loaded =
     [ex_a_txt\<lparr>contents := Some ''abc'', in_unicode := Some True\<rparr>,
      ex_logo_png\<lparr>contents := Some ''PNG'', in_unicode := Some False\<rparr>,
      ex_README\<lparr>contents := Some ''read me'', in_unicode := Some True\<rparr>]"

definition ex_reached :: ScrubberContext where
  "ex_reached =
     ex_ctx\<lparr>errors := [StrFinding ''found''],
            files :=
              [ex_a_txt\<lparr>contents := Some ''scrubbed'', in_unicode := Some True,
                        is_modified := True\<rparr>,
               ex_logo_png\<lparr>contents := Some ''PNG'', in_unicode := Some False\<rparr>,
               ex_README\<lparr>contents := Some ''read me'', in_unicode := Some True\<rparr>]\<rparr>"

text \<open>
  A platform on which every file written decodes, a new file gets the mode asked for, a
  file replaced keeps its mode, and \<open>diff\<close> prints a fixed text.
\<close>

definition ex_platform :: platform where
  "ex_platform =
     \<lparr>decodes = (\<lambda>bytes. True),
      mode_after_write = (\<lambda>old mode. case old of None \<Rightarrow> 32768 + mode | Some m \<Rightarrow> m),
      diff_stdout = (\<lambda>original modified. ''1c1'')\<rparr>"

text \<open>
  The codebase with a modified \<open>x\<close> and a file \<open>x.tmp\<close> beside it, to be scrubbed in
  place.
\<close>

definition ex_fs_tmp :: filesystem where
  "ex_fs_tmp =
     [''/c/x'' \<mapsto> \<lparr>df_bytes = ''abc'', df_utf8 = True, st_mode = 33188\<rparr>,
      ''/c/x.tmp'' \<mapsto> \<lparr>df_bytes = ''def'', df_utf8 = True, st_mode = 33188\<rparr>]"

definition ex_tmp_ctx :: ScrubberContext where
  "ex_tmp_ctx =
     \<lparr>config = ex_config\<lparr>modify := True\<rparr>, errors = [], ctx_temp_dir = ''/t'',
      files =
        [(new_ScannedFile ''/c/x'' ''x'' ''/t/scratch'' ''x'')
           \<lparr>contents := Some ''scrubbed'', in_unicode := Some True, is_modified := True\<rparr>,
         (new_ScannedFile ''/c/x.tmp'' ''x.tmp'' ''/t/scratch'' ''x.tmp'')
           \<lparr>contents := Some ''def'', in_unicode := Some True\<rparr>],
      unscrubbed_file_extensions = {}, unscrubbed_files = {}\<rparr>"

section \<open>Relations used in the proofs\<close>

text \<open>
  Between two states of a scan the file at index \<open>j\<close> is untouched: the list of files
  has kept its length, the file at \<open>j\<close> and the configuration are the same, and \<open>j\<close> has
  not entered the trace.
\<close>

definition untouched :: "nat \<Rightarrow> scan_state \<Rightarrow> scan_state \<Rightarrow> bool" where
  "untouched j st st' =
     (length (files (fst st')) = length (files (fst st)) \<and>
      files (fst st') ! j = files (fst st) ! j \<and>
      (j \<in> set (snd st')) = (j \<in> set (snd st)) \<and>
      config (fst st') = config (fst st))"

text \<open>
  Loading the contents of a file changes nothing else of it.
\<close>

definition same_file :: "ScannedFile \<Rightarrow> ScannedFile \<Rightarrow> bool" where
  "same_file f f' =
     (filename f' = filename f \<and> relative_filename f' = relative_filename f \<and>
      output_relative_filename f' = output_relative_filename f \<and>
      is_modified f' = is_modified f \<and> is_deleted f' = is_deleted f)"

text \<open>
  The relative path that \<open>RelativeFilename\<close> returns for an input file, when it returns
  one.
\<close>

definition relative_of :: "(string \<Rightarrow> string) \<Rightarrow> ScrubberConfig \<Rightarrow> string \<Rightarrow> string" where
  "relative_of abspath cfg fname =
     (case RelativeFilename abspath cfg fname of Inl e \<Rightarrow> [] | Inr rel \<Rightarrow> rel)"


section \<open>Properties of ScannedFile\<close>

lemma replace_scan_no_occurrence:
  "\<forall>k. \<not> startswith (drop k s) old \<Longrightarrow> replace_scan old new s = s"
proof (induction s)
  case Nil
  then show ?case by simp
next
  case (Cons c cs)
  have here: "\<not> startswith (c # cs) old"
    using Cons.prems [rule_format, of 0] by simp
  have "\<forall>k. \<not> startswith (drop k cs) old"
  proof
    fix k
    show "\<not> startswith (drop k cs) old"
      using Cons.prems [rule_format, of "Suc k"] by simp
  qed
  then have "replace_scan old new cs = cs"
    by (rule Cons.IH)
  with here show ?case by simp
qed

lemma Delete_sets_flags:
  "is_deleted (Delete f) \<and> is_modified (Delete f) \<and> contents (Delete f) = Some []"
  by (simp add: Delete_def)

text \<open>
  C1: \<open>RewriteContent\<close> sets \<open>is_modified\<close> whether or not the text changed.  On the
  loaded file \<open>a.txt\<close> (contents \<open>abc\<close>, not modified), rewriting \<open>x\<close> to \<open>y\<close> leaves the
  contents as they were and still marks the file modified.
\<close>

theorem RewriteContent_marks_unchanged_file_modified:
  "contents ex_a_txt_loaded = Some ''abc'' \<and> is_modified ex_a_txt_loaded = False \<and>
   RewriteContent ex_a_txt_loaded ''x'' ''y'' =
     Inr (ex_a_txt_loaded\<lparr>contents := Some ''abc'', is_modified := True\<rparr>)"
  by (simp add: ex_a_txt_loaded_def ex_a_txt_def new_ScannedFile_def RewriteContent_def
      py_replace_def startswith_def)

text \<open>
  C2: \<open>Contents\<close> called after \<open>Delete\<close> reads the file from disk again, because the
  emptied contents are falsy: on \<open>a.txt\<close> it returns \<open>abc\<close> and stores it back in the
  deleted file.
\<close>

theorem Contents_after_Delete_rereads_disk:
  "Contents ex_fs (Delete ex_a_txt) =
     Inr (''abc'', (Delete ex_a_txt)\<lparr>contents := Some ''abc'', in_unicode := Some True\<rparr>)"
  by (simp add: Contents_def Delete_def ReadContents_def ex_fs_def ex_a_txt_def
      new_ScannedFile_def)

lemma and_64_bit_6: "((x::int) AND 64 \<noteq> 0) = bit x 6"
  using and_exp_eq_0_iff_not_bit [of x 6] by simp

text \<open>
  C6 (as the code has it): the mode written back starts from read+write, gains the execute
  bit exactly when the owner's execute bit (\<open>0o100\<close>) of the original mode is set, and
  carries the same triad for user, group and world.
\<close>

theorem Mode_mirrors_owner_execute:
  assumes "fs (filename f) = Some d"
  shows "Mode fs f = Inr (let t = (if bit (st_mode d) 6 then 7 else 6) in 64 * t + 8 * t + t)"
  using assms by (simp add: Mode_def S_IEXEC_def and_64_bit_6 Let_def)

theorem Mode_mirrors_owner_execute_witness:
  "ex_fs (filename ex_go_sh) = Some \<lparr>df_bytes = ''exit'', df_utf8 = True, st_mode = 33261\<rparr> \<and>
   Mode ex_fs ex_go_sh = Inr 511"
proof -
  have h: "ex_fs (filename ex_go_sh) =
      Some \<lparr>df_bytes = ''exit'', df_utf8 = True, st_mode = 33261\<rparr>"
    by (simp add: ex_fs_def ex_go_sh_def new_ScannedFile_def)
  have b: "bit (33261::int) 6"
    by (simp add: bit_iff_odd)
  have "Mode ex_fs ex_go_sh = Inr 511"
    using Mode_mirrors_owner_execute [of ex_fs ex_go_sh, OF h] b by simp
  with h show ?thesis by simp
qed

text \<open>
  The script \<open>run.sh\<close> has mode \<open>0o100654\<close>: its group may execute it
  (\<open>33196 AND 0o111 = 0o010\<close>), yet the mode computed for writing back is \<open>0o666\<close>.
\<close>

theorem Mode_group_execute_counterexample:
  "ex_fs (filename ex_run_sh) = Some \<lparr>df_bytes = ''echo'', df_utf8 = True, st_mode = 33196\<rparr> \<and>
   (33196::int) AND 73 = 8 \<and> Mode ex_fs ex_run_sh = Inr 438"
  by (simp add: ex_fs_def ex_run_sh_def new_ScannedFile_def Mode_def S_IEXEC_def Let_def)

section \<open>Properties of the dispatcher, the emitter and the front ends\<close>

lemma untouched_refl: "untouched j st st"
  by (simp add: untouched_def)

lemma untouched_trans: "untouched j a b \<Longrightarrow> untouched j b c \<Longrightarrow> untouched j a c"
  by (simp add: untouched_def)

lemma files_to_scrub_length:
  "files_to_scrub fs cfg fl k = Inr (fl', idxs) \<Longrightarrow> length fl' = length fl"
  by (induction fl arbitrary: k fl' idxs) (auto split: sum.splits prod.splits)

lemma files_to_scrub_bounds:
  "files_to_scrub fs cfg fl k = Inr (fl', idxs) \<Longrightarrow> i \<in> set idxs \<Longrightarrow> k \<le> i"
proof (induction fl arbitrary: k fl' idxs)
  case Nil
  then show ?case by simp
next
  case (Cons f rest)
  then show ?case
    by (fastforce split: sum.splits prod.splits if_splits)
qed

lemma files_to_scrub_nth:
  "files_to_scrub fs cfg fl k = Inr (fl', idxs) \<Longrightarrow> j < length fl
    \<Longrightarrow> ShouldScrubFile fs cfg (fl ! j) = Inr (keep, f')
    \<Longrightarrow> fl' ! j = f' \<and> ((k + j \<in> set idxs) = keep)"
proof (induction fl arbitrary: k fl' idxs j)
  case Nil
  then show ?case by simp
next
  case (Cons f rest)
  from Cons.prems(1) obtain kp g rest' idxs' where
    s: "ShouldScrubFile fs cfg f = Inr (kp, g)" and
    r: "files_to_scrub fs cfg rest (Suc k) = Inr (rest', idxs')" and
    e: "fl' = g # rest'" "idxs = (if kp then k # idxs' else idxs')"
    by (auto split: sum.splits prod.splits)
  show ?case
  proof (cases j)
    case 0
    have "k \<notin> set idxs'"
      using files_to_scrub_bounds [OF r, of k] by auto
    with 0 s e Cons.prems(3) show ?thesis by auto
  next
    case (Suc j')
    with Cons.prems have "j' < length rest" "ShouldScrubFile fs cfg (rest ! j') = Inr (keep, f')"
      by auto
    from Cons.IH [OF r this] Suc e show ?thesis by auto
  qed
qed

lemma write_back_length: "length (write_back idxs fl store) = length store"
  by (induction idxs fl store rule: write_back.induct) auto

lemma write_back_other: "j \<notin> set idxs \<Longrightarrow> write_back idxs fl store ! j = store ! j"
  by (induction idxs fl store rule: write_back.induct) auto

lemma BatchScrubFiles_untouched:
  "j \<notin> set idxs \<Longrightarrow> untouched j st (BatchScrubFiles b idxs st)"
  by (auto simp: untouched_def BatchScrubFiles_def write_back_length write_back_other
      split: prod.splits)

lemma batch_scrubbers_loop_untouched:
  "(\<And>l. by_ext ext = Some l \<Longrightarrow> j \<notin> set l)
    \<Longrightarrow> untouched j st (batch_scrubbers_loop bs ext by_ext st)"
proof (induction bs arbitrary: st)
  case Nil
  then show ?case by (simp add: untouched_refl)
next
  case (Cons b bs)
  have "untouched j st (case by_ext ext of Some idxs \<Rightarrow> BatchScrubFiles b idxs st | None \<Rightarrow> st)"
    using Cons.prems by (auto simp: untouched_refl BatchScrubFiles_untouched split: option.splits)
  moreover have "untouched j (case by_ext ext of Some idxs \<Rightarrow> BatchScrubFiles b idxs st | None \<Rightarrow> st)
      (batch_scrubbers_loop bs ext by_ext
        (case by_ext ext of Some idxs \<Rightarrow> BatchScrubFiles b idxs st | None \<Rightarrow> st))"
    using Cons.prems by (intro Cons.IH)
  ultimately show ?case
    by (auto intro: untouched_trans)
qed

lemma batch_map_loop_untouched:
  "(\<And>ext l. by_ext ext = Some l \<Longrightarrow> j \<notin> set l)
    \<Longrightarrow> untouched j st (batch_map_loop m by_ext st)"
proof (induction m arbitrary: st)
  case Nil
  then show ?case by (simp add: untouched_refl)
next
  case (Cons p m)
  obtain ext bs where p: "p = (ext, bs)" by (cases p)
  have a: "untouched j st (batch_scrubbers_loop bs ext by_ext st)"
    using Cons.prems by (intro batch_scrubbers_loop_untouched)
  have b: "untouched j (batch_scrubbers_loop bs ext by_ext st)
      (batch_map_loop m by_ext (batch_scrubbers_loop bs ext by_ext st))"
    using Cons.prems by (intro Cons.IH)
  from a b p show ?case
    by (auto intro: untouched_trans)
qed

lemma files_by_extension_members:
  "(\<And>ext l. m ext = Some l \<Longrightarrow> j \<notin> set l) \<Longrightarrow> j \<notin> set idxs
    \<Longrightarrow> files_by_extension cfg store idxs m ext = Some l \<Longrightarrow> j \<notin> set l"
proof (induction idxs arbitrary: m)
  case Nil
  then show ?case by simp
next
  case (Cons i rest)
  let ?e = "GetExtension cfg (relative_filename (store ! i))"
  let ?m = "m(?e \<mapsto> (case m ?e of None \<Rightarrow> [] | Some l \<Rightarrow> l) @ [i])"
  have m': "\<And>ext l. ?m ext = Some l \<Longrightarrow> j \<notin> set l"
    using Cons.prems(1,2) by (auto split: if_splits option.splits)
  have r: "files_by_extension cfg store rest ?m ext = Some l"
    using Cons.prems(3) by (simp add: Let_def)
  have nr: "j \<notin> set rest"
    using Cons.prems(2) by simp
  show ?case
    by (rule Cons.IH [of ?m, OF m' nr r])
qed

lemma RunBatchScrubbers_untouched:
  "j \<notin> set idxs \<Longrightarrow> untouched j st (RunBatchScrubbers m idxs st)"
  unfolding RunBatchScrubbers_def
  by (rule batch_map_loop_untouched) (rule files_by_extension_members [where m = Map.empty], auto)

lemma scrubbers_loop_untouched:
  "i \<noteq> j \<Longrightarrow> untouched j st (scrubbers_loop ss i st)"
proof (induction ss i st rule: scrubbers_loop.induct)
  case (1 i st)
  then show ?case by (simp add: untouched_refl)
next
  case (2 scrubber rest i ctx trace)
  show ?case
  proof (cases "is_deleted (files ctx ! i)")
    case True
    then show ?thesis by (simp add: untouched_refl)
  next
    case False
    obtain f' errs where r: "scrubber (files ctx ! i) (errors ctx) = (f', errs)"
      by (cases "scrubber (files ctx ! i) (errors ctx)")
    let ?st = "(ctx\<lparr>files := (files ctx)[i := f'], errors := errs\<rparr>, trace @ [i])"
    have a: "untouched j (ctx, trace) ?st"
      using "2.prems" by (simp add: untouched_def)
    have b: "untouched j ?st (scrubbers_loop rest i ?st)"
      using "2.IH" [OF False r [symmetric] "2.prems"] .
    from a b False r show ?thesis
      by (auto intro: untouched_trans)
  qed
qed

lemma ScrubbersForFile_context:
  "ScrubbersForFile ctx f = (ss, ctx') \<Longrightarrow> files ctx' = files ctx \<and> config ctx' = config ctx"
  by (auto simp: ScrubbersForFile_def Let_def split: option.splits if_splits)

lemma scrub_files_loop_untouched:
  "j \<notin> set idxs \<Longrightarrow> untouched j st (scrub_files_loop idxs st)"
proof (induction idxs st rule: scrub_files_loop.induct)
  case (1 st)
  then show ?case by (simp add: untouched_refl)
next
  case (2 i rest ctx trace)
  obtain ss ctx' where r: "ScrubbersForFile ctx (files ctx ! i) = (ss, ctx')"
    by (cases "ScrubbersForFile ctx (files ctx ! i)")
  from "2.prems" have ij: "i \<noteq> j" "j \<notin> set rest" by auto
  have a: "untouched j (ctx, trace) (ctx', trace)"
    using ScrubbersForFile_context [OF r] by (simp add: untouched_def)
  have b: "untouched j (ctx', trace) (scrubbers_loop ss i (ctx', trace))"
    using ij by (intro scrubbers_loop_untouched)
  have c: "untouched j (scrubbers_loop ss i (ctx', trace))
      (scrub_files_loop rest (scrubbers_loop ss i (ctx', trace)))"
    using "2.IH" [OF r [symmetric] ij(2)] .
  from a b c r show ?case
    by (auto intro: untouched_trans)
qed

lemmas ex_defs = ex_fs_def ex_scrubber_def ex_config_def ex_logo_png_def ex_README_def
  ex_files_def ex_ctx_def ex_scanned_def ex_a_txt_def new_ScannedFile_def
  default_known_filenames_def

lemmas path_defs = basename_def splitext_def rfind_def startswith_def endswith_def
  path_join_def path_join3_def dirname_def rstrip_slash_def

lemma ex_FindFiles: "FindFiles id ''/t'' ex_config = Inr ex_files"
  by (simp add: FindFiles_def GetScratchDir_def RelativeFilename_def py_replace1_def
      ex_defs path_defs)

lemma ex_Scan: "Scan ex_fs ex_ctx = Inr (ex_scanned, [0, 2])"
  by (simp add: Scan_def ShouldScrubFile_def IsBinaryFile_def Contents_def ReadContents_def
      RunBatchScrubbers_def ScrubbersForFile_def GetExtension_def WriteContents_def
      ex_defs path_defs Let_def)

lemma IsBinaryFile_relative_filename:
  "IsBinaryFile fs f = Inr (b, f') \<Longrightarrow> relative_filename f' = relative_filename f"
  by (auto simp: IsBinaryFile_def Contents_def split: sum.splits prod.splits if_splits)

lemma FindFiles_loop_filter:
  "FindFiles_loop abspath cfg scratch inputs = Inr found
    \<Longrightarrow> map filename found =
          filter (\<lambda>fname. \<not> ignore_files_re cfg (relative_of abspath cfg fname)) inputs \<and>
        map relative_filename found =
          map (relative_of abspath cfg)
            (filter (\<lambda>fname. \<not> ignore_files_re cfg (relative_of abspath cfg fname)) inputs)"
proof (induction inputs arbitrary: found)
  case Nil
  then show ?case by simp
next
  case (Cons x xs)
  from Cons.prems obtain rel where r: "RelativeFilename abspath cfg x = Inr rel"
    by (auto split: sum.splits)
  then have ro: "relative_of abspath cfg x = rel"
    by (simp add: relative_of_def)
  show ?case
  proof (cases "ignore_files_re cfg rel")
    case True
    with Cons.prems r have "FindFiles_loop abspath cfg scratch xs = Inr found"
      by simp
    from Cons.IH [OF this] True ro show ?thesis
      by simp
  next
    case False
    with Cons.prems r obtain out_rel rest where
      f: "found = new_ScannedFile x rel scratch out_rel # rest"
      and x: "FindFiles_loop abspath cfg scratch xs = Inr rest"
      by (auto split: sum.splits option.splits)
    from Cons.IH [OF x] False ro f show ?thesis
      by (simp add: new_ScannedFile_def)
  qed
qed

lemma new_ScrubberContext_fields:
  assumes "new_ScrubberContext abspath mkdtemp cfg = Inr ctx"
  shows "config ctx = cfg \<and> errors ctx = [] \<and>
         FindFiles abspath (ctx_temp_dir ctx) cfg = Inr (files ctx)"
  using assms
  by (auto simp: new_ScrubberContext_def Let_def split: sum.splits if_splits)

lemma ex_new_ScrubberContext: "new_ScrubberContext id ''/tmp/scrubber0'' ex_config = Inr ex_ctx"
proof -
  have "cfg_temp_dir ex_config = ''/t''"
    by (simp add: ex_config_def)
  with ex_FindFiles show ?thesis
    by (simp add: new_ScrubberContext_def ex_ctx_def Let_def)
qed

text \<open>
  C5: the file list of a context holds, in order, exactly the input files whose relative
  path \<open>ignore_files_re\<close> does not match, so that a binary file and a file that
  \<open>do_not_scrub_files_re\<close> matches are in it like any other; and a file of the list that
  is binary, or whose relative path \<open>do_not_scrub_files_re\<close> matches, is after \<open>Scan\<close>
  exactly what loading it made of it, and no \<open>ScrubFile\<close> or \<open>BatchScrubFiles\<close> call of the
  scan was given it.
\<close>

theorem excluded_files_are_never_scrubbed:
  assumes init: "new_ScrubberContext abspath mkdtemp cfg = Inr ctx"
    and scan: "Scan fs ctx = Inr (ctx', trace)"
  shows "map filename (files ctx) =
           filter (\<lambda>fname. \<not> ignore_files_re cfg (relative_of abspath cfg fname))
             (input_files cfg) \<and>
         map relative_filename (files ctx) =
           map (relative_of abspath cfg)
             (filter (\<lambda>fname. \<not> ignore_files_re cfg (relative_of abspath cfg fname))
                (input_files cfg)) \<and>
         (\<forall>i < length (files ctx). \<forall>binary f'.
            IsBinaryFile fs (files ctx ! i) = Inr (binary, f') \<and>
            (binary \<or> do_not_scrub_files_re cfg (relative_filename (files ctx ! i)))
            \<longrightarrow> files ctx' ! i = f' \<and> i \<notin> set trace)"
proof -
  from new_ScrubberContext_fields [OF init]
  have cfg: "config ctx = cfg"
    and found: "FindFiles abspath (ctx_temp_dir ctx) cfg = Inr (files ctx)"
    by simp_all
  from found have l: "map filename (files ctx) =
           filter (\<lambda>fname. \<not> ignore_files_re cfg (relative_of abspath cfg fname))
             (input_files cfg) \<and>
         map relative_filename (files ctx) =
           map (relative_of abspath cfg)
             (filter (\<lambda>fname. \<not> ignore_files_re cfg (relative_of abspath cfg fname))
                (input_files cfg))"
    unfolding FindFiles_def by (rule FindFiles_loop_filter)
  have s: "\<forall>i < length (files ctx). \<forall>binary f'.
            IsBinaryFile fs (files ctx ! i) = Inr (binary, f') \<and>
            (binary \<or> do_not_scrub_files_re cfg (relative_filename (files ctx ! i)))
            \<longrightarrow> files ctx' ! i = f' \<and> i \<notin> set trace"
  proof (intro allI impI)
    fix i binary f'
    assume i: "i < length (files ctx)"
      and b: "IsBinaryFile fs (files ctx ! i) = Inr (binary, f') \<and>
              (binary \<or> do_not_scrub_files_re cfg (relative_filename (files ctx ! i)))"
    from scan obtain loaded idxs where
      sel: "files_to_scrub fs (config ctx) (files ctx) 0 = Inr (loaded, idxs)"
      by (auto simp: Scan_def split: sum.splits prod.splits)
    let ?st0 = "(ctx\<lparr>files := loaded\<rparr>, [] :: nat list)"
    let ?st1 = "RunBatchScrubbers (extension_to_pre_batch_scrubbers_map (config ctx)) idxs ?st0"
    let ?st2 = "scrub_files_loop idxs ?st1"
    let ?st3 = "RunBatchScrubbers (extension_to_post_batch_scrubbers_map (config ctx)) idxs ?st2"
    from scan sel have res: "(ctx', trace) = ?st3"
      by (simp add: Scan_def Let_def)
    from b have "relative_filename f' = relative_filename (files ctx ! i)"
      by (auto dest: IsBinaryFile_relative_filename)
    with b cfg have "ShouldScrubFile fs (config ctx) (files ctx ! i) = Inr (False, f')"
      by (auto simp: ShouldScrubFile_def)
    from files_to_scrub_nth [OF sel i this] have l: "loaded ! i = f'" and n: "i \<notin> set idxs"
      by auto
    have "untouched i ?st0 ?st1"
      using n by (rule RunBatchScrubbers_untouched)
    moreover have "untouched i ?st1 ?st2"
      using n by (rule scrub_files_loop_untouched)
    moreover have "untouched i ?st2 ?st3"
      using n by (rule RunBatchScrubbers_untouched)
    ultimately have "untouched i ?st0 ?st3"
      by (blast intro: untouched_trans)
    with res [symmetric] l show "files ctx' ! i = f' \<and> i \<notin> set trace"
      by (simp add: untouched_def)
  qed
  from l s show ?thesis by blast
qed

theorem excluded_files_are_never_scrubbed_witness:
  "new_ScrubberContext id ''/tmp/scrubber0'' ex_config = Inr ex_ctx \<and>
   Scan ex_fs ex_ctx = Inr (ex_scanned, [0, 2]) \<and>
   input_files ex_config = [''/c/a.txt'', ''/c/logo.png'', ''/c/skip.tmp'', ''/c/README''] \<and>
   map filename (files ex_ctx) = [''/c/a.txt'', ''/c/logo.png'', ''/c/README''] \<and>
   map relative_filename (files ex_ctx) = [''a.txt'', ''logo.png'', ''README''] \<and>
   IsBinaryFile ex_fs (files ex_ctx ! 1) =
     Inr (True, ex_logo_png\<lparr>contents := Some ''PNG'', in_unicode := Some False\<rparr>) \<and>
   files ex_scanned ! 1 = ex_logo_png\<lparr>contents := Some ''PNG'', in_unicode := Some False\<rparr> \<and>
   1 \<notin> set [0::nat, 2]"
proof -
  have b: "IsBinaryFile ex_fs (files ex_ctx ! 1) =
      Inr (True, ex_logo_png\<lparr>contents := Some ''PNG'', in_unicode := Some False\<rparr>)"
    by (simp add: IsBinaryFile_def Contents_def ReadContents_def ex_defs)
  have i: "1 < length (files ex_ctx)"
    by (simp add: ex_ctx_def ex_files_def)
  have r: "relative_of id ex_config ''/c/a.txt'' = ''a.txt''"
    "relative_of id ex_config ''/c/logo.png'' = ''logo.png''"
    "relative_of id ex_config ''/c/skip.tmp'' = ''skip.tmp''"
    "relative_of id ex_config ''/c/README'' = ''README''"
    by (simp_all add: relative_of_def RelativeFilename_def py_replace1_def ex_config_def
        path_defs)
  have g: "ignore_files_re ex_config = (\<lambda>s. endswith s ''.tmp'')"
    and inp: "input_files ex_config =
      [''/c/a.txt'', ''/c/logo.png'', ''/c/skip.tmp'', ''/c/README'']"
    by (simp_all add: ex_config_def)
  note t = excluded_files_are_never_scrubbed [OF ex_new_ScrubberContext ex_Scan]
  from t have "map filename (files ex_ctx) = [''/c/a.txt'', ''/c/logo.png'', ''/c/README''] \<and>
    map relative_filename (files ex_ctx) = [''a.txt'', ''logo.png'', ''README'']"
    by (simp add: r g inp endswith_def)
  moreover from t i b
  have "files ex_scanned ! 1 = ex_logo_png\<lparr>contents := Some ''PNG'', in_unicode := Some False\<rparr>
      \<and> 1 \<notin> set [0::nat, 2]"
    by blast
  ultimately show ?thesis
    using ex_new_ScrubberContext ex_Scan b inp by simp
qed

lemmas ex_defs3 = ex_sub_def ex_a_txt_deleted_def ex_a_txt_scrubbed_def ex_emit_ctx_def
  ex_env_def ex_codebase_def ex_a_txt_loaded_def ex_defs

text \<open>
  C4: the dotfile step of \<open>_GetExtension\<close> tests and returns the whole relative path,
  not the basename.  For \<open>sub/.gitignore\<close>, whose basename \<open>.gitignore\<close> has no extension
  and starts with a dot, the resolved extension is the empty string; only a dotfile at the
  top of the tree resolves to its name.
\<close>

theorem GetExtension_nested_dotfile:
  "basename ''sub/.gitignore'' = ''.gitignore'' \<and>
   GetExtension ex_config ''sub/.gitignore'' = [] \<and>
   GetExtension ex_config ''.gitignore'' = ''.gitignore''"
  by (simp add: GetExtension_def ex_config_def path_defs Let_def)

lemma scrub_files_loop_append:
  "scrub_files_loop (xs @ ys) st = scrub_files_loop ys (scrub_files_loop xs st)"
proof (induction xs arbitrary: st)
  case Nil
  then show ?case by simp
next
  case (Cons x xs)
  obtain ctx trace where st: "st = (ctx, trace)" by (cases st)
  show ?case
    unfolding st by (simp add: Cons.IH split: prod.splits)
qed

lemma BatchScrubFiles_unscrubbed:
  "unscrubbed_file_extensions (fst (BatchScrubFiles b idxs st)) =
     unscrubbed_file_extensions (fst st)"
  by (simp add: BatchScrubFiles_def split: prod.splits)

lemma batch_scrubbers_loop_unscrubbed:
  "unscrubbed_file_extensions (fst (batch_scrubbers_loop bs ext by_ext st)) =
     unscrubbed_file_extensions (fst st)"
  by (induction bs arbitrary: st) (simp_all add: BatchScrubFiles_unscrubbed split: option.splits)

lemma batch_map_loop_unscrubbed:
  "unscrubbed_file_extensions (fst (batch_map_loop m by_ext st)) =
     unscrubbed_file_extensions (fst st)"
proof (induction m arbitrary: st)
  case Nil
  then show ?case by simp
next
  case (Cons p m)
  obtain ext bs where p: "p = (ext, bs)" by (cases p)
  show ?case
    unfolding p by (simp add: Cons.IH batch_scrubbers_loop_unscrubbed)
qed

lemma RunBatchScrubbers_unscrubbed:
  "unscrubbed_file_extensions (fst (RunBatchScrubbers m idxs st)) =
     unscrubbed_file_extensions (fst st)"
  by (simp add: RunBatchScrubbers_def batch_map_loop_unscrubbed)

lemma scrubbers_loop_unscrubbed:
  "unscrubbed_file_extensions (fst (scrubbers_loop ss i st)) =
     unscrubbed_file_extensions (fst st)"
proof (induction ss i st rule: scrubbers_loop.induct)
  case (1 i st)
  then show ?case by simp
next
  case (2 scrubber rest i ctx trace)
  show ?case
  proof (cases "is_deleted (files ctx ! i)")
    case True
    then show ?thesis by simp
  next
    case False
    obtain f' errs where r: "scrubber (files ctx ! i) (errors ctx) = (f', errs)"
      by (cases "scrubber (files ctx ! i) (errors ctx)")
    from "2.IH" [OF False r [symmetric]] False r show ?thesis
      by simp
  qed
qed

lemma scrub_files_loop_unscrubbed:
  "unscrubbed_file_extensions (fst st)
     \<subseteq> unscrubbed_file_extensions (fst (scrub_files_loop idxs st))"
proof (induction idxs arbitrary: st)
  case Nil
  then show ?case by simp
next
  case (Cons i rest)
  obtain ctx trace where st: "st = (ctx, trace)" by (cases st)
  obtain ss ctx' where r: "ScrubbersForFile ctx (files ctx ! i) = (ss, ctx')"
    by (cases "ScrubbersForFile ctx (files ctx ! i)")
  then have "unscrubbed_file_extensions ctx \<subseteq> unscrubbed_file_extensions ctx'"
    by (auto simp: ScrubbersForFile_def Let_def split: option.splits if_splits)
  also have "\<dots> = unscrubbed_file_extensions (fst (scrubbers_loop ss i (ctx', trace)))"
    by (simp add: scrubbers_loop_unscrubbed)
  also have "\<dots> \<subseteq> unscrubbed_file_extensions
      (fst (scrub_files_loop rest (scrubbers_loop ss i (ctx', trace))))"
    by (rule Cons.IH)
  finally show ?case
    unfolding st using r by simp
qed

lemma split_at_first:
  assumes "i \<in> set idxs"
  shows "idxs = takeWhile (\<lambda>j. j \<noteq> i) idxs @ i # tl (dropWhile (\<lambda>j. j \<noteq> i) idxs)"
proof -
  from assms have ne: "dropWhile (\<lambda>j. j \<noteq> i) idxs \<noteq> []"
    by (auto simp: dropWhile_eq_Nil_conv)
  then have "hd (dropWhile (\<lambda>j. j \<noteq> i) idxs) = i"
    using hd_dropWhile [of "\<lambda>j. j \<noteq> i" idxs] by simp
  with ne have "dropWhile (\<lambda>j. j \<noteq> i) idxs = i # tl (dropWhile (\<lambda>j. j \<noteq> i) idxs)"
    by (cases "dropWhile (\<lambda>j. j \<noteq> i) idxs") simp_all
  then show ?thesis
    using takeWhile_dropWhile_id [of "\<lambda>j. j \<noteq> i" idxs] by simp
qed

lemma scan_state_config:
  assumes "scrub_files_loop pre (RunBatchScrubbers m idxs (ctx0, t0)) = (c, t)"
    and "set pre \<subseteq> set idxs"
  shows "config c = config ctx0"
proof -
  have "finite (set idxs)" by simp
  then obtain j where j: "j \<notin> set idxs"
    using ex_new_if_finite [OF infinite_UNIV_nat] by blast
  with assms(2) have j': "j \<notin> set pre" by blast
  have "untouched j (ctx0, t0) (RunBatchScrubbers m idxs (ctx0, t0))"
    using j by (rule RunBatchScrubbers_untouched)
  moreover have "untouched j (RunBatchScrubbers m idxs (ctx0, t0))
      (scrub_files_loop pre (RunBatchScrubbers m idxs (ctx0, t0)))"
    using j' by (rule scrub_files_loop_untouched)
  ultimately have "untouched j (ctx0, t0) (c, t)"
    using assms(1) by (auto intro: untouched_trans)
  then show ?thesis
    by (simp add: untouched_def)
qed

text \<open>
  C3 (as the code has it): take a file of the list that is neither binary nor matched by
  \<open>do_not_scrub_files_re\<close>, and let \<open>(c, t)\<close> be the state of the scan when its loop over
  the files to scrub reaches that file, after the first batch scrubbers and the files
  before it.  If the resolved extension of the file has then no entry in the per-file
  rule table, the scan goes on by running the default rule list on it, whatever the file
  is called; the lookup has recorded the extension in the unknown-extension set unless
  the bare name of the file is a known filename, and then it has recorded nothing.
\<close>

theorem Scan_runs_default_scrubbers_on_table_miss:
  assumes scan: "Scan fs ctx = Inr (ctx', trace)"
    and sel: "files_to_scrub fs (config ctx) (files ctx) 0 = Inr (loaded, idxs)"
    and i: "i < length (files ctx)"
    and keep: "ShouldScrubFile fs (config ctx) (files ctx ! i) = Inr (True, f0)"
    and reach: "scrub_files_loop (takeWhile (\<lambda>j. j \<noteq> i) idxs)
                  (RunBatchScrubbers (extension_to_pre_batch_scrubbers_map (config ctx)) idxs
                     (ctx\<lparr>files := loaded\<rparr>, [])) = (c, t)"
    and miss: "extension_to_scrubber_map (config ctx)
                 (GetExtension (config ctx) (relative_filename (files c ! i))) = None"
  shows "i \<in> set idxs \<and>
         (ctx', trace) =
           RunBatchScrubbers (extension_to_post_batch_scrubbers_map (config ctx)) idxs
             (scrub_files_loop (tl (dropWhile (\<lambda>j. j \<noteq> i) idxs))
                (scrubbers_loop (default_scrubbers (config ctx)) i
                   (if basename (filename (files c ! i)) \<in> known_filenames (config ctx)
                    then c
                    else c\<lparr>unscrubbed_file_extensions :=
                             insert (GetExtension (config ctx) (relative_filename (files c ! i)))
                               (unscrubbed_file_extensions c)\<rparr>, t))) \<and>
         (basename (filename (files c ! i)) \<notin> known_filenames (config ctx)
            \<longrightarrow> GetExtension (config ctx) (relative_filename (files c ! i))
                  \<in> unscrubbed_file_extensions ctx')"
proof -
  let ?pre = "takeWhile (\<lambda>j. j \<noteq> i) idxs"
  let ?post = "tl (dropWhile (\<lambda>j. j \<noteq> i) idxs)"
  let ?st1 = "RunBatchScrubbers (extension_to_pre_batch_scrubbers_map (config ctx)) idxs
                (ctx\<lparr>files := loaded\<rparr>, [])"
  let ?ext = "GetExtension (config ctx) (relative_filename (files c ! i))"
  let ?c' = "if basename (filename (files c ! i)) \<in> known_filenames (config ctx) then c
             else c\<lparr>unscrubbed_file_extensions := insert ?ext (unscrubbed_file_extensions c)\<rparr>"
  let ?st = "scrubbers_loop (default_scrubbers (config ctx)) i (?c', t)"
  from files_to_scrub_nth [OF sel i keep] have mem: "i \<in> set idxs"
    by simp
  have "set ?pre \<subseteq> set idxs"
    by (auto dest: set_takeWhileD)
  from scan_state_config [OF reach this] have cfg: "config c = config ctx"
    by simp
  from miss cfg have look: "ScrubbersForFile c (files c ! i) = (default_scrubbers (config ctx), ?c')"
    by (simp add: ScrubbersForFile_def Let_def)
  have "scrub_files_loop idxs ?st1 = scrub_files_loop (?pre @ i # ?post) ?st1"
    using split_at_first [OF mem] by simp
  also have "\<dots> = scrub_files_loop (i # ?post) (c, t)"
    by (simp only: scrub_files_loop_append reach)
  also have "\<dots> = scrub_files_loop ?post ?st"
    using look by simp
  finally have loop: "scrub_files_loop idxs ?st1 = scrub_files_loop ?post ?st" .
  from scan sel have res: "(ctx', trace) =
      RunBatchScrubbers (extension_to_post_batch_scrubbers_map (config ctx)) idxs
        (scrub_files_loop idxs ?st1)"
    by (simp add: Scan_def Let_def)
  with loop have eq: "(ctx', trace) =
      RunBatchScrubbers (extension_to_post_batch_scrubbers_map (config ctx)) idxs
        (scrub_files_loop ?post ?st)"
    by simp
  have rec: "?ext \<in> unscrubbed_file_extensions ctx'"
    if n: "basename (filename (files c ! i)) \<notin> known_filenames (config ctx)"
  proof -
    from n have "?ext \<in> unscrubbed_file_extensions (fst ?st)"
      by (simp add: scrubbers_loop_unscrubbed)
    then have "?ext \<in> unscrubbed_file_extensions (fst (scrub_files_loop ?post ?st))"
      using scrub_files_loop_unscrubbed [of ?st ?post] by blast
    then have "?ext \<in> unscrubbed_file_extensions (fst (RunBatchScrubbers
        (extension_to_post_batch_scrubbers_map (config ctx)) idxs (scrub_files_loop ?post ?st)))"
      by (simp only: RunBatchScrubbers_unscrubbed)
    with eq [symmetric] show ?thesis
      by simp
  qed
  from mem eq rec show ?thesis
    by blast
qed

lemma ex_files_to_scrub:
  "files_to_scrub ex_fs (config ex_ctx) (files ex_ctx) 0 = Inr (ex_loaded, [0, 2])"
  by (simp add: ShouldScrubFile_def IsBinaryFile_def Contents_def ReadContents_def
      ex_loaded_def ex_defs)

lemma ex_README_kept:
  "ShouldScrubFile ex_fs (config ex_ctx) (files ex_ctx ! 2) =
     Inr (True, ex_README\<lparr>contents := Some ''read me'', in_unicode := Some True\<rparr>)"
  by (simp add: ShouldScrubFile_def IsBinaryFile_def Contents_def ReadContents_def ex_defs)

lemma ex_reach_README:
  "scrub_files_loop (takeWhile (\<lambda>j. j \<noteq> 2) [0, 2])
     (RunBatchScrubbers (extension_to_pre_batch_scrubbers_map (config ex_ctx)) [0, 2]
        (ex_ctx\<lparr>files := ex_loaded\<rparr>, [])) = (ex_reached, [0])"
  by (simp add: RunBatchScrubbers_def ScrubbersForFile_def GetExtension_def WriteContents_def
      ex_loaded_def ex_reached_def ex_defs path_defs Let_def)

lemma ex_reached_README:
  "files ex_reached ! 2 = ex_README\<lparr>contents := Some ''read me'', in_unicode := Some True\<rparr>"
  by (simp add: ex_reached_def)

lemma ex_reached_miss:
  "extension_to_scrubber_map (config ex_ctx)
     (GetExtension (config ex_ctx) (relative_filename (files ex_reached ! 2))) = None"
  by (simp add: ex_reached_README GetExtension_def ex_defs path_defs Let_def)

lemma ex_reached_known:
  "basename (filename (files ex_reached ! 2)) \<in> known_filenames (config ex_ctx)"
  by (simp add: ex_reached_README ex_defs path_defs)

theorem Scan_runs_default_scrubbers_on_table_miss_witness:
  "Scan ex_fs ex_ctx = Inr (ex_scanned, [0, 2]) \<and>
   files_to_scrub ex_fs (config ex_ctx) (files ex_ctx) 0 = Inr (ex_loaded, [0, 2]) \<and>
   2 < length (files ex_ctx) \<and>
   ShouldScrubFile ex_fs (config ex_ctx) (files ex_ctx ! 2) =
     Inr (True, ex_README\<lparr>contents := Some ''read me'', in_unicode := Some True\<rparr>) \<and>
   scrub_files_loop [0]
     (RunBatchScrubbers (extension_to_pre_batch_scrubbers_map (config ex_ctx)) [0, 2]
        (ex_ctx\<lparr>files := ex_loaded\<rparr>, [])) = (ex_reached, [0]) \<and>
   extension_to_scrubber_map (config ex_ctx)
     (GetExtension (config ex_ctx) (relative_filename (files ex_reached ! 2))) = None \<and>
   basename (filename (files ex_reached ! 2)) \<in> known_filenames (config ex_ctx) \<and>
   (ex_scanned, [0, 2]) =
     RunBatchScrubbers (extension_to_post_batch_scrubbers_map (config ex_ctx)) [0, 2]
       (scrub_files_loop [] (scrubbers_loop (default_scrubbers (config ex_ctx)) 2 (ex_reached, [0])))"
proof -
  have i: "2 < length (files ex_ctx)"
    by (simp add: ex_ctx_def ex_files_def)
  have "(ex_scanned, [0, 2]) =
     RunBatchScrubbers (extension_to_post_batch_scrubbers_map (config ex_ctx)) [0, 2]
       (scrub_files_loop [] (scrubbers_loop (default_scrubbers (config ex_ctx)) 2 (ex_reached, [0])))"
    using Scan_runs_default_scrubbers_on_table_miss
      [OF ex_Scan ex_files_to_scrub i ex_README_kept ex_reach_README ex_reached_miss]
      ex_reached_known
    by simp
  with ex_Scan ex_files_to_scrub i ex_README_kept ex_reach_README ex_reached_miss
    ex_reached_known
  show ?thesis by simp
qed

text \<open>
  \<open>README\<close> is a known filename with no entry in the rule table of the example
  configuration, and the scan runs the default rule on it: its index is in the trace and
  its contents are rewritten.
\<close>

theorem known_filename_is_scrubbed_counterexample:
  "basename (filename (files ex_ctx ! 2)) = ''README'' \<and>
   ''README'' \<in> known_filenames (config ex_ctx) \<and>
   extension_to_scrubber_map (config ex_ctx)
     (GetExtension (config ex_ctx) (relative_filename (files ex_ctx ! 2))) = None \<and>
   Scan ex_fs ex_ctx = Inr (ex_scanned, [0, 2]) \<and>
   contents (files ex_scanned ! 2) = Some ''scrubbed'' \<and>
   is_modified (files ex_scanned ! 2)"
  using ex_Scan by (simp add: GetExtension_def ex_defs path_defs Let_def)

text \<open>
  C9 (as the code has it): with exactly one directory argument, giving both
  \<open>--config_file\<close> and \<open>--config_data\<close> ends the process with exit status 3 before anything
  is scrubbed.  Otherwise \<open>main\<close> looks for the input files: an error found there also ends
  the process with exit status 3, and without one \<open>main\<close> runs the scrubber with the
  configuration file, the configuration data, or (when neither is given) the empty
  configuration.
\<close>

theorem main_config_flags:
  assumes "length args = 2"
  shows "main env config_file config_data args =
           (if config_file \<noteq> [] \<and> config_data \<noteq> []
            then SystemExit 3 (''Specify at most one of --config_data and --config_file.''
                               @ [CHR 0x0A] @ MAIN_USAGE_STRING)
            else case env_GetInputFiles env (env_abspath env (args ! 1)) of
                   (err_str, inputs) \<Rightarrow>
                     (case err_str of
                        Some (c # cs) \<Rightarrow> SystemExit 3 ((c # cs) @ [CHR 0x0A] @ MAIN_USAGE_STRING)
                      | _ \<Rightarrow>
                          (case env_run env
                                  (if config_file \<noteq> [] then ConfigFile config_file
                                   else if config_data \<noteq> [] then ConfigData config_data
                                   else EmptyConfig)
                                  (env_abspath env (args ! 1)) inputs of
                             Inl e \<Rightarrow> Raised e
                           | Inr status \<Rightarrow> Returned status)))"
  using assms
  by (auto simp: main_def BadCommand_def Let_def split: prod.splits option.splits list.splits)

theorem main_config_flags_witness:
  "length [''scrubber'', ''/c''] = 2 \<and>
   main ex_env ''cfg.json'' ''{}'' [''scrubber'', ''/c''] =
     SystemExit 3 (''Specify at most one of --config_data and --config_file.''
                   @ [CHR 0x0A] @ MAIN_USAGE_STRING) \<and>
   main ex_env ''cfg.json'' [] [''scrubber'', ''/c''] = Returned 1 \<and>
   main ex_env [] ''{}'' [''scrubber'', ''/c''] = Returned 1 \<and>
   main ex_env_no_dir ''cfg.json'' [] [''scrubber'', ''/c''] =
     SystemExit 3 (''/c is not a directory'' @ [CHR 0x0A] @ MAIN_USAGE_STRING)"
proof -
  have l: "length [''scrubber'', ''/c''] = 2" by simp
  have "main ex_env ''cfg.json'' ''{}'' [''scrubber'', ''/c''] =
     SystemExit 3 (''Specify at most one of --config_data and --config_file.''
                   @ [CHR 0x0A] @ MAIN_USAGE_STRING)"
    using main_config_flags [OF l, of ex_env "''cfg.json''" "''{}''"] by simp
  moreover have "main ex_env ''cfg.json'' [] [''scrubber'', ''/c''] = Returned 1"
    using main_config_flags [OF l, of ex_env "''cfg.json''" "[]"] by (simp add: ex_env_def)
  moreover have "main ex_env [] ''{}'' [''scrubber'', ''/c''] = Returned 1"
    using main_config_flags [OF l, of ex_env "[]" "''{}''"] by (simp add: ex_env_def)
  moreover have "main ex_env_no_dir ''cfg.json'' [] [''scrubber'', ''/c''] =
     SystemExit 3 (''/c is not a directory'' @ [CHR 0x0A] @ MAIN_USAGE_STRING)"
    using main_config_flags [OF l, of ex_env_no_dir "''cfg.json''" "[]"]
    by (simp add: ex_env_no_dir_def ex_env_def)
  ultimately show ?thesis by simp
qed

text \<open>
  With neither flag \<open>main\<close> does not exit with status 3: it runs with the empty
  configuration (for which the example environment reports status 0).
\<close>

theorem main_without_config_counterexample:
  "main ex_env [] [] [''scrubber'', ''/c''] = Returned 0"
  by (simp add: main_def ex_env_def)

text \<open>
  C10: a codebase that is already in the project space asked for is returned as it is,
  whatever the translators are, and no method of any translator is called.
\<close>

theorem TranslateToProjectSpace_same_space:
  assumes "ProjectSpace cb = to_project_space"
  shows "TranslateToProjectSpace cb to_project_space translators = (Inr cb, [])"
  using assms by (simp add: TranslateToProjectSpace_def)

theorem TranslateToProjectSpace_same_space_witness:
  "ProjectSpace ex_codebase = ''foo'' \<and>
   TranslateToProjectSpace ex_codebase ''foo''
     [ScrubberInvokingTranslator ''foo'' ''foo'', IdentityTranslator ''foo'' ''bar'']
     = (Inr ex_codebase, []) \<and>
   TranslateToProjectSpace ex_codebase ''foo'' [] = (Inr ex_codebase, [])"
proof -
  have p: "ProjectSpace ex_codebase = ''foo''"
    by (simp add: ProjectSpace_def ex_codebase_def)
  show ?thesis
    using TranslateToProjectSpace_same_space [OF p] p by simp
qed

lemma ex_translate_other:
  "TranslateToProjectSpace ex_codebase ''bar''
     [ScrubberInvokingTranslator ''foo'' ''baz'', IdentityTranslator ''foo'' ''bar'']
     = (Inr (ex_codebase\<lparr>cb_project_space := ''bar''\<rparr>),
        [Call_FromProjectSpace 0, Call_ToProjectSpace 0, Call_FromProjectSpace 1,
         Call_ToProjectSpace 1, Call_Translate 1])"
  by (simp add: TranslateToProjectSpace_def ProjectSpace_def ex_codebase_def
      ScrubberInvokingTranslator_def IdentityTranslator_def ExpandedPath_def
      AdditionalFilesRe_def)

lemma Contents_ok:
  "fs (filename f) = Some d \<Longrightarrow> \<exists>c f'. Contents fs f = Inr (c, f') \<and> same_file f f'"
  by (auto simp: Contents_def ReadContents_def same_file_def)

lemma Mode_ok:
  "fs (filename f) = Some d \<Longrightarrow> Mode fs f = Inr (if bit (st_mode d) 6 then 511 else 438)"
  by (simp add: Mode_def S_IEXEC_def and_64_bit_6 Let_def)

lemma WriteToFile_ok:
  assumes "fs (filename f) = Some d"
  shows "\<exists>f' w. WriteToFile fs f path original = Inr (f', w) \<and> same_file f f'"
proof -
  from Contents_ok [of fs f, OF assms] obtain c f' where
    c: "Contents fs f = Inr (c, f')" and s: "same_file f f'" by blast
  from s assms have d': "fs (filename f') = Some d"
    by (simp add: same_file_def)
  show ?thesis
    using c s d' Mode_ok [of fs f', OF d']
    by (simp add: WriteToFile_def bindE_def ReadContents_def)
qed

lemmas emit_defs = write_file_output_def write_output_tree_def write_modified_tree_def
  write_source_tree_def WriteToFile_def Contents_def ReadContents_def PossiblyEncode_def
  Mode_def S_IEXEC_def bindE_def DIFFS_DIR_def ORIGINAL_DIR_def OUTPUT_DIR_def
  MODIFIED_DIR_def Delete_def

text \<open>
  C7 (as the code has it): for a file marked deleted the emitter writes nothing to the
  output tree.  If the file is also marked modified (as \<open>Delete\<close> marks it), the emitter
  writes the original to the originals tree and runs \<open>diff\<close> with that original on the
  left and \<open>/dev/null\<close> on the right, and with \<open>modify\<close> it removes the source file; if it
  is not marked modified the emitter does nothing at all for it.
\<close>

theorem deleted_file_output:
  assumes del: "is_deleted f" and d: "fs (filename f) = Some d"
  shows "write_file_output fs sub cfg tmp f =
           Inr (if is_modified f
                then (if contents f = None \<or> contents f = Some []
                      then f\<lparr>contents := Some (df_bytes d), in_unicode := Some (df_utf8 d)\<rparr>
                      else f,
                      [MakeDirs (dirname (path_join3 tmp ORIGINAL_DIR (relative_filename f))),
                       WriteFile (path_join3 tmp ORIGINAL_DIR (relative_filename f)) (df_bytes d)
                         (if bit (st_mode d) 6 then 511 else 438),
                       MakeDirs (dirname (path_join3 tmp DIFFS_DIR (relative_filename f))),
                       RunDiff (path_join3 tmp ORIGINAL_DIR (relative_filename f)) ''/dev/null''
                         (path_join3 tmp DIFFS_DIR (relative_filename f))
                         (diff_returncode sub
                            (path_join3 tmp ORIGINAL_DIR (relative_filename f)) ''/dev/null'')]
                      @ (if modify cfg
                         then [Remove (filename f), Print (''Deleted '' @ filename f)] else []))
                else (f, []))"
proof (cases "is_modified f")
  case False
  with del show ?thesis
    by (simp add: write_file_output_def write_output_tree_def bindE_def)
next
  case True
  from del True d show ?thesis
    by (simp add: write_file_output_def write_output_tree_def write_modified_tree_def
        write_source_tree_def WriteToFile_def Contents_def ReadContents_def PossiblyEncode_def
        Mode_def S_IEXEC_def bindE_def Let_def and_64_bit_6)
qed

lemma ex_deleted_on_disk:
  "ex_fs (filename ex_a_txt_deleted) =
     Some \<lparr>df_bytes = ''abc'', df_utf8 = True, st_mode = 33188\<rparr>"
  by (simp add: ex_defs3 Delete_def)

lemma ex_deleted_flag: "is_deleted ex_a_txt_deleted"
  by (simp add: ex_defs3 Delete_def)

theorem deleted_file_output_witness:
  "is_deleted ex_a_txt_deleted \<and>
   ex_fs (filename ex_a_txt_deleted) =
     Some \<lparr>df_bytes = ''abc'', df_utf8 = True, st_mode = 33188\<rparr> \<and>
   write_file_output ex_fs ex_sub ex_config_modify ''/t'' ex_a_txt_deleted =
     Inr (ex_a_txt_deleted\<lparr>contents := Some ''abc'', in_unicode := Some True\<rparr>,
          [MakeDirs ''/t/originals'', WriteFile ''/t/originals/a.txt'' ''abc'' 438,
           MakeDirs ''/t/diffs'',
           RunDiff ''/t/originals/a.txt'' ''/dev/null'' ''/t/diffs/a.txt'' 2,
           Remove ''/c/a.txt'', Print ''Deleted /c/a.txt''])"
proof -
  have b: "\<not> bit (33188::int) 6"
    by (simp add: bit_iff_odd)
  have "write_file_output ex_fs ex_sub ex_config_modify ''/t'' ex_a_txt_deleted =
     Inr (ex_a_txt_deleted\<lparr>contents := Some ''abc'', in_unicode := Some True\<rparr>,
          [MakeDirs ''/t/originals'', WriteFile ''/t/originals/a.txt'' ''abc'' 438,
           MakeDirs ''/t/diffs'',
           RunDiff ''/t/originals/a.txt'' ''/dev/null'' ''/t/diffs/a.txt'' 2,
           Remove ''/c/a.txt'', Print ''Deleted /c/a.txt''])"
    using deleted_file_output [of ex_a_txt_deleted ex_fs, OF ex_deleted_flag ex_deleted_on_disk,
        of ex_sub ex_config_modify "''/t''"] b
    by (simp add: ex_defs3 ex_config_modify_def Delete_def path_defs DIFFS_DIR_def
        ORIGINAL_DIR_def Let_def)
  with ex_deleted_flag ex_deleted_on_disk show ?thesis by simp
qed

text \<open>
  The deleted \<open>a.txt\<close>: the left side of its diff is \<open>/t/originals/a.txt\<close>, not
  \<open>/dev/null\<close>.
\<close>

theorem deleted_file_diff_counterexample:
  "is_deleted ex_a_txt_deleted \<and> is_modified ex_a_txt_deleted \<and>
   write_file_output ex_fs ex_sub ex_config ''/t'' ex_a_txt_deleted =
     Inr (ex_a_txt_deleted\<lparr>contents := Some ''abc'', in_unicode := Some True\<rparr>,
          [MakeDirs ''/t/originals'', WriteFile ''/t/originals/a.txt'' ''abc'' 438,
           MakeDirs ''/t/diffs'',
           RunDiff ''/t/originals/a.txt'' ''/dev/null'' ''/t/diffs/a.txt'' 2])"
  by (simp add: emit_defs ex_defs3 path_defs Let_def)














text \<open>
  Scrubbing in place a context that holds a modified \<open>x\<close> and then \<open>x.tmp\<close>: the emitter
  writes \<open>x.tmp\<close> and renames it to \<open>x\<close>, and the turn of \<open>x.tmp\<close> finds no file.
\<close>

lemma ex_tmp_collision_raises:
  "WriteOutput ex_platform ex_fs_tmp ex_sub ex_tmp_ctx = Inl (OSError ''/c/x.tmp'')"
  by (simp add: WriteOutput_def emit_defs ex_tmp_ctx_def ex_fs_tmp_def ex_platform_def
      ex_config_def ex_sub_def new_ScannedFile_def write_file_def path_defs Let_def)

end
